theory Spec2Isabelle
  imports Complex_Main
begin

section \<open>Python values and exceptions\<close>

text \<open>
  The gateways and pipelines of PoseLab are Python scripts. Exceptions are modelled as
  values: a function that may raise returns \<open>py_error + 'a\<close>, with \<open>Inl\<close> the
  exception that leaves the function. Python floats are modelled as real numbers: the
  arithmetic below is exact, the rounding of binary64 and of the \<open>float32\<close> casts is
  not modelled, and neither are NaN and the infinities.
\<close>

datatype py_error =
    ValueError
  | KeyError
  | IndexError
  | TypeError
  | NameError
  | ZeroDivisionError
  | CalledProcessError int

section \<open>Pose math\<close>

text \<open>
  A NumPy matrix is a function from row and column index to its entry, so that
  \<open>M[2,1]\<close> of the source is \<open>M 2 1\<close>. A quaternion and a flattened matrix are
  lists of numbers, as in the source.
\<close>

type_synonym matrix = "nat \<Rightarrow> nat \<Rightarrow> real"

definition mat3 :: "real list \<Rightarrow> matrix" where
  "mat3 xs = (\<lambda>i j. if i < 3 \<and> j < 3 then xs ! (3 * i + j) else 0)"

definition flatten3 :: "matrix \<Rightarrow> real list" where
  "flatten3 M = [M 0 0, M 0 1, M 0 2, M 1 0, M 1 1, M 1 2, M 2 0, M 2 1, M 2 2]"

text \<open>\<open>rotation_matrix_to_quaternion\<close> of \<open>GigaPose/websocket.py\<close>, lines 59 to 93.\<close>

definition rotation_matrix_to_quaternion :: "matrix \<Rightarrow> real list" where
  "rotation_matrix_to_quaternion M =
    (let trace = M 0 0 + M 1 1 + M 2 2 in
     if trace > 0 then
       (let s = 0.5 / sqrt (trace + 1.0);
            w = 0.25 / s;
            x = (M 2 1 - M 1 2) * s;
            y = (M 0 2 - M 2 0) * s;
            z = (M 1 0 - M 0 1) * s
        in [x, y, z, w])
     else if M 0 0 > M 1 1 \<and> M 0 0 > M 2 2 then
       (let s = 2.0 * sqrt (1.0 + M 0 0 - M 1 1 - M 2 2);
            w = (M 2 1 - M 1 2) / s;
            x = 0.25 * s;
            y = (M 0 1 + M 1 0) / s;
            z = (M 0 2 + M 2 0) / s
        in [x, y, z, w])
     else if M 1 1 > M 2 2 then
       (let s = 2.0 * sqrt (1.0 + M 1 1 - M 0 0 - M 2 2);
            w = (M 0 2 - M 2 0) / s;
            x = (M 0 1 + M 1 0) / s;
            y = 0.25 * s;
            z = (M 1 2 + M 2 1) / s
        in [x, y, z, w])
     else
       (let s = 2.0 * sqrt (1.0 + M 2 2 - M 0 0 - M 1 1);
            w = (M 1 0 - M 0 1) / s;
            x = (M 0 2 + M 2 0) / s;
            y = (M 1 2 + M 2 1) / s;
            z = 0.25 * s
        in [x, y, z, w]))"

text \<open>
  \<open>quat_to_rotm\<close> of \<open>MegaPose/websocket_server.py\<close>, lines 80 to 94, and of
  \<open>OVE6D/display_result.py\<close>, lines 42 to 56 (the two are the same text). The
  unpacking \<open>x,y,z,w = q\<close> raises ValueError unless \<open>q\<close> has four components, and the
  division of a Python float by the norm \<open>0.0\<close> raises ZeroDivisionError.
\<close>

fun quat_to_rotm :: "real list \<Rightarrow> py_error + real list" where
  "quat_to_rotm [x, y, z, w] =
    (let n = sqrt (x*x + y*y + z*z + w*w) in
     if n = 0 then Inl ZeroDivisionError
     else
       (let x = x / n; y = y / n; z = z / n; w = w / n;
            xx = x*x; yy = y*y; zz = z*z;
            xy = x*y; xz = x*z; yz = y*z;
            wx = w*x; wy = w*y; wz = w*z
        in Inr [1 - 2*(yy+zz), 2*(xy - wz),   2*(xz + wy),
                2*(xy + wz),   1 - 2*(xx+zz), 2*(yz - wx),
                2*(xz - wy),   2*(yz + wx),   1 - 2*(xx+yy)]))"
| "quat_to_rotm _ = Inl ValueError"

subsection \<open>Reference notions for the pose math\<close>

text \<open>
  A valid rotation matrix: the rows are orthonormal and the determinant is 1.
\<close>

definition is_rotation :: "matrix \<Rightarrow> bool" where
  "is_rotation M \<longleftrightarrow>
     M 0 0 * M 0 0 + M 0 1 * M 0 1 + M 0 2 * M 0 2 = 1 \<and>
     M 1 0 * M 1 0 + M 1 1 * M 1 1 + M 1 2 * M 1 2 = 1 \<and>
     M 2 0 * M 2 0 + M 2 1 * M 2 1 + M 2 2 * M 2 2 = 1 \<and>
     M 0 0 * M 1 0 + M 0 1 * M 1 1 + M 0 2 * M 1 2 = 0 \<and>
     M 0 0 * M 2 0 + M 0 1 * M 2 1 + M 0 2 * M 2 2 = 0 \<and>
     M 1 0 * M 2 0 + M 1 1 * M 2 1 + M 1 2 * M 2 2 = 0 \<and>
     M 0 0 * (M 1 1 * M 2 2 - M 1 2 * M 2 1)
       - M 0 1 * (M 1 0 * M 2 2 - M 1 2 * M 2 0)
       + M 0 2 * (M 1 0 * M 2 1 - M 1 1 * M 2 0) = 1"

text \<open>
  Shepperd's method as the specification words it, with the textbook formulas: the
  direct square-root formula on the trace, and one formula for each diagonal entry
  that can be the pivot. The results are in the order \<open>[x, y, z, w]\<close>.
\<close>

definition shepperd_trace :: "matrix \<Rightarrow> real list" where
  "shepperd_trace M =
    (let w = sqrt (1 + (M 0 0 + M 1 1 + M 2 2)) / 2
     in [(M 2 1 - M 1 2) / (4 * w), (M 0 2 - M 2 0) / (4 * w), (M 1 0 - M 0 1) / (4 * w), w])"

definition shepperd_diag :: "nat \<Rightarrow> matrix \<Rightarrow> real list" where
  "shepperd_diag k M =
    (if k = 0 then
       (let x = sqrt (1 + M 0 0 - M 1 1 - M 2 2) / 2
        in [x, (M 0 1 + M 1 0) / (4 * x), (M 0 2 + M 2 0) / (4 * x), (M 2 1 - M 1 2) / (4 * x)])
     else if k = 1 then
       (let y = sqrt (1 + M 1 1 - M 0 0 - M 2 2) / 2
        in [(M 0 1 + M 1 0) / (4 * y), y, (M 1 2 + M 2 1) / (4 * y), (M 0 2 - M 2 0) / (4 * y)])
     else
       (let z = sqrt (1 + M 2 2 - M 0 0 - M 1 1) / 2
        in [(M 0 2 + M 2 0) / (4 * z), (M 1 2 + M 2 1) / (4 * z), z, (M 1 0 - M 0 1) / (4 * z)]))"

definition largest_diag :: "matrix \<Rightarrow> nat \<Rightarrow> bool" where
  "largest_diag M k \<longleftrightarrow> M 0 0 \<le> M k k \<and> M 1 1 \<le> M k k \<and> M 2 2 \<le> M k k"

section \<open>Text and numbers\<close>

text \<open>
  A Python string is a list of characters; the characters of the model are the code
  points below 256. \<open>isspace\<close> is \<open>str.isspace\<close> on these code points, and
  \<open>str_split\<close> is \<open>str.split()\<close> without argument: the maximal runs of characters
  that are not whitespace, in order.
\<close>

definition isspace :: "char \<Rightarrow> bool" where
  "isspace c \<longleftrightarrow> (of_char c :: nat) \<in> {9, 10, 11, 12, 13, 28, 29, 30, 31, 32, 133, 160}"

fun split_from :: "string \<Rightarrow> string \<Rightarrow> string list" where
  "split_from cur [] = (if cur = [] then [] else [cur])"
| "split_from cur (c # cs) =
     (if isspace c then (if cur = [] then split_from [] cs else cur # split_from [] cs)
      else split_from (cur @ [c]) cs)"

definition str_split :: "string \<Rightarrow> string list" where
  "str_split s = split_from [] s"


text \<open>
  Python's \<open>float\<close> on a token, for the decimal literals
  \<open>[sign] digits [. digits] [(e|E) [sign] digits]\<close> with a digit before or after the
  point. The value is the exact real number the literal denotes. The other spellings
  that \<open>float\<close> accepts (\<open>inf\<close>, \<open>nan\<close>, digits grouped with underscores) have no
  place in this model of numbers and are answered with \<open>None\<close>, as the literals that
  \<open>float\<close> rejects with ValueError are.
\<close>

definition is_digit :: "char \<Rightarrow> bool" where
  "is_digit c \<longleftrightarrow> 48 \<le> (of_char c :: nat) \<and> (of_char c :: nat) \<le> 57"

definition digits_value :: "string \<Rightarrow> nat" where
  "digits_value ds = foldl (\<lambda>n c. 10 * n + (of_char c - 48)) 0 ds"

definition split_at :: "(char \<Rightarrow> bool) \<Rightarrow> string \<Rightarrow> string \<times> string option" where
  "split_at P s =
     (takeWhile (\<lambda>c. \<not> P c) s,
      case dropWhile (\<lambda>c. \<not> P c) s of [] \<Rightarrow> None | _ # r \<Rightarrow> Some r)"

fun strip_sign :: "string \<Rightarrow> bool \<times> string" where
  "strip_sign [] = (False, [])"
| "strip_sign (c # r) =
     (if c = CHR ''-'' then (True, r) else if c = CHR ''+'' then (False, r) else (False, c # r))"

fun exponent :: "string option \<Rightarrow> int option" where
  "exponent None = Some 0"
| "exponent (Some t) =
     (case strip_sign t of (neg, ds) \<Rightarrow>
        if ds \<noteq> [] \<and> list_all is_digit ds
        then Some (if neg then - int (digits_value ds) else int (digits_value ds))
        else None)"

definition py_float :: "string \<Rightarrow> real option" where
  "py_float s =
     (case strip_sign s of (neg, body) \<Rightarrow>
      case split_at (\<lambda>c. c = CHR ''e'' \<or> c = CHR ''E'') body of (mant, ex) \<Rightarrow>
      case split_at (\<lambda>c. c = CHR ''.'') mant of (ip, fp) \<Rightarrow>
      let fr = (case fp of None \<Rightarrow> [] | Some f \<Rightarrow> f) in
      if \<not> (list_all is_digit ip \<and> list_all is_digit fr \<and> (ip \<noteq> [] \<or> fr \<noteq> [])) then None
      else case exponent ex of
             None \<Rightarrow> None
           | Some e \<Rightarrow>
               let m = real (digits_value ip) + real (digits_value fr) / 10 ^ length fr;
                   v = (if 0 \<le> e then m * 10 ^ nat e else m / 10 ^ nat (- e))
               in Some (if neg then - v else v))"



section \<open>The gateways: running the pipeline and normalizing its result\<close>

text \<open>
  The reply of a gateway is the dictionary \<open>{"position": ..., "rotation": ...}\<close>.
  \<open>fallback_pose\<close> names the literal \<open>{"position": [0,0,0], "rotation": [0,0,0,1]}\<close>
  that the three gateways write out in their failure branches: the zero position and
  the identity quaternion in the order \<open>(x, y, z, w)\<close>.
\<close>

record pose =
  position :: "real list"
  rotation :: "real list"

definition fallback_pose :: pose where
  "fallback_pose = \<lparr>position = [0, 0, 0], rotation = [0, 0, 0, 1]\<rparr>"

text \<open>\<open>os.path.join\<close> on POSIX paths.\<close>

definition join2 :: "string \<Rightarrow> string \<Rightarrow> string" where
  "join2 a b =
     (if b \<noteq> [] \<and> hd b = CHR ''/'' then b
      else if a = [] \<or> last a = CHR ''/'' then a @ b
      else a @ ''/'' @ b)"

fun os_path_join :: "string list \<Rightarrow> string" where
  "os_path_join [] = []"
| "os_path_join (a # ps) = foldl join2 a ps"

text \<open>
  What a gateway finds when it runs its pipeline: the exit status of the child process,
  and the result files that are present once the process has ended, by path, with
  their content as the loader returns it.
\<close>

record 'a world =
  returncode :: int
  files :: "string \<rightharpoonup> 'a"

text \<open>
  \<open>subprocess.run(cmd, check=True)\<close>. An argument that is \<open>None\<close> (a header without
  \<open>objectType\<close> or \<open>sceneName\<close>) makes the call raise TypeError before any process
  is started; a non-zero exit status raises CalledProcessError.
\<close>

definition subprocess_run_check :: "string option list \<Rightarrow> int \<Rightarrow> py_error + unit" where
  "subprocess_run_check cmd rc =
     (if None \<in> set cmd then Inl TypeError
      else if rc \<noteq> 0 then Inl (CalledProcessError rc)
      else Inr ())"

definition sys_executable :: string where
  "sys_executable = ''python''"

definition PIPELINE_SCRIPT :: string where
  "PIPELINE_SCRIPT = os_path_join [''pipeline.py'']"

definition EXPORT_ROOT :: string where
  "EXPORT_ROOT = ''../SharedData/WebsocketData''"

subsection \<open>GigaPose: the archive of pose hypotheses\<close>

text \<open>
  The content of \<open>0.npz\<close>: \<open>data["poses"][0]\<close>, the 4x4 pose matrices, and
  \<open>data["scores"][0]\<close>, their scores.
\<close>

record npz =
  poses :: "matrix list"
  scores :: "real list"

text \<open>
  \<open>np.argmax\<close> on a one-dimensional array: ValueError on the empty array, otherwise a
  scan that keeps the first index of the largest value seen.
\<close>

fun argmax_scan :: "real list \<Rightarrow> nat \<Rightarrow> nat \<Rightarrow> real \<Rightarrow> nat" where
  "argmax_scan [] i best v = best"
| "argmax_scan (x # xs) i best v =
     (if v < x then argmax_scan xs (Suc i) i x else argmax_scan xs (Suc i) best v)"

fun argmax :: "real list \<Rightarrow> py_error + nat" where
  "argmax [] = Inl ValueError"
| "argmax (x # xs) = Inr (argmax_scan xs 1 0 x)"

definition cmd_GigaPose ::
  "string \<Rightarrow> string \<Rightarrow> string option \<Rightarrow> string option \<Rightarrow> string option list" where
  "cmd_GigaPose img_folder image_id object_type scene_name =
     [Some sys_executable, Some PIPELINE_SCRIPT,
      Some ''--input_dir'', Some (os_path_join [''.'', img_folder]),
      Some ''--bopm_output'', Some ''lmo'',
      Some ''--cad_ply'', Some ''./gigaPose_datasets/datasets/lmo/models/obj_000001.ply'',
      Some ''--checkpoint'', Some ''sam_vit_h.pth'',
      Some ''--default_detect_dest'',
      Some ''./gigaPose_datasets/datasets/default_detections/core19_model_based_unseen/cnos-fastsam'',
      Some ''--run_id'', Some image_id,
      Some ''--test_dataset'', Some ''lmo'',
      Some ''--reuse_templates'',
      Some ''--object_type'', object_type,
      Some ''--raw_cache'', Some ''../SharedData/ObjectModelsM'',
      Some ''--scene_name'', scene_name]"

text \<open>
  \<open>estimate_pose\<close> of \<open>GigaPose/websocket.py\<close>, lines 95 to 161. The handler of
  \<open>except Exception\<close> uses the name \<open>ws\<close>, which is bound neither in the function nor
  in the module, so that branch raises NameError.
\<close>

definition estimate_pose_GigaPose ::
  "npz world \<Rightarrow> string \<Rightarrow> string \<Rightarrow> string option \<Rightarrow> string option \<Rightarrow> py_error + pose" where
  "estimate_pose_GigaPose w img_folder image_id object_type scene_name =
     (case subprocess_run_check (cmd_GigaPose img_folder image_id object_type scene_name)
             (returncode w) of
        Inl (CalledProcessError _) \<Rightarrow> Inr \<lparr>position = [0, 0, 0], rotation = [0, 0, 0, 1]\<rparr>
      | Inl _ \<Rightarrow> Inl NameError
      | Inr _ \<Rightarrow>
          (let npz_path = os_path_join [''gigaPose_datasets'', ''results'', ''large_'' @ image_id,
                                        ''predictions'', ''0.npz'']
           in case files w npz_path of
                None \<Rightarrow> Inr \<lparr>position = [0, 0, 0], rotation = [0, 0, 0, 1]\<rparr>
              | Some data \<Rightarrow>
                  (case argmax (scores data) of
                     Inl e \<Rightarrow> Inl e
                   | Inr best_idx \<Rightarrow>
                       if best_idx < length (poses data) then
                         (let best_mat = poses data ! best_idx;
                              t = [best_mat 0 3, best_mat 1 3, best_mat 2 3];
                              R = flatten3 best_mat
                          in Inr \<lparr>position = t, rotation = R\<rparr>)
                       else Inl IndexError)))"

subsection \<open>MegaPose: the JSON list of pose records\<close>

text \<open>
  An entry of \<open>object_data.json\<close>: its \<open>label\<close>, if it has one, and its \<open>TWO\<close>
  field, if it has one, a list of lists of numbers. The file is either malformed, and
  \<open>json.load\<close> raises JSONDecodeError (a ValueError), or a list of entries.
\<close>

record entry =
  label :: "string option"
  TWO :: "real list list option"

datatype json_file = Malformed | Document "entry list"

definition cmd_MegaPose :: "string option \<Rightarrow> string option \<Rightarrow> string option list" where
  "cmd_MegaPose object_type scene_name =
     [Some sys_executable, Some PIPELINE_SCRIPT,
      Some ''--object_type'', object_type,
      Some ''--scene_name'', scene_name]"

text \<open>Steps 4 to 6 of \<open>estimate_pose\<close> of MegaPose, lines 131 to 144, on the entry found.\<close>

definition unpack_TWO :: "entry \<Rightarrow> py_error + pose" where
  "unpack_TWO entry =
     (case TWO entry of
        None \<Rightarrow> Inl KeyError
      | Some two \<Rightarrow>
          if length two < 1 then Inl IndexError
          else
            (let quat = two ! 0 in
             if length two < 2 then Inl IndexError
             else
               (let trans = map (\<lambda>x. x * 1000) (two ! 1) in
                if length quat \<noteq> 4 \<or> length trans \<noteq> 3
                then Inr \<lparr>position = [0, 0, 0], rotation = [0, 0, 0, 1]\<rparr>
                else (case quat_to_rotm quat of
                        Inl e \<Rightarrow> Inl e
                      | Inr rotMat \<Rightarrow> Inr \<lparr>position = trans, rotation = rotMat\<rparr>))))"

text \<open>\<open>estimate_pose\<close> of \<open>MegaPose/websocket_server.py\<close>, lines 96 to 144.\<close>

definition estimate_pose_MegaPose ::
  "json_file world \<Rightarrow> string \<Rightarrow> string \<Rightarrow> string option \<Rightarrow> string option \<Rightarrow> py_error + pose" where
  "estimate_pose_MegaPose w img_folder image_id object_type scene_name =
     (case subprocess_run_check (cmd_MegaPose object_type scene_name) (returncode w) of
        Inl (CalledProcessError _) \<Rightarrow> Inr \<lparr>position = [0, 0, 0], rotation = [0, 0, 0, 1]\<rparr>
      | Inl e \<Rightarrow> Inl e
      | Inr _ \<Rightarrow>
          (let json_path = os_path_join [''local_data'', ''examples'', ''barbecue-sauce'',
                                         ''outputs'', ''object_data.json'']
           in case files w json_path of
                None \<Rightarrow> Inr \<lparr>position = [0, 0, 0], rotation = [0, 0, 0, 1]\<rparr>
              | Some Malformed \<Rightarrow> Inl ValueError
              | Some (Document data) \<Rightarrow>
                  (case find (\<lambda>d. label d = Some ''barbecue-sauce'') data of
                     None \<Rightarrow> Inr \<lparr>position = [0, 0, 0], rotation = [0, 0, 0, 1]\<rparr>
                   | Some entry \<Rightarrow> unpack_TWO entry)))"

subsection \<open>OVE6D: the CSV table of predictions\<close>

text \<open>
  The content of \<open>predictions.csv\<close> as \<open>csv.DictReader\<close> yields it: the data rows,
  each a dictionary from column name to text.
\<close>

type_synonym csv_row = "string \<rightharpoonup> string"

definition cmd_OVE6D :: "string option \<Rightarrow> string option \<Rightarrow> string option list" where
  "cmd_OVE6D object_type scene_name =
     [Some sys_executable, Some PIPELINE_SCRIPT,
      Some ''--object_type'', object_type,
      Some ''--scene_name'', scene_name]"

text \<open>\<open>list(map(float, s.split()))\<close>.\<close>

definition floats_of :: "string \<Rightarrow> py_error + real list" where
  "floats_of s = (case those (map py_float (str_split s)) of
                    None \<Rightarrow> Inl ValueError | Some vs \<Rightarrow> Inr vs)"

text \<open>\<open>estimate_pose\<close> of \<open>OVE6D/websocket_server.py\<close>, lines 80 to 119.\<close>

definition estimate_pose_OVE6D ::
  "csv_row list world \<Rightarrow> string \<Rightarrow> string \<Rightarrow> string option \<Rightarrow> string option \<Rightarrow> py_error + pose" where
  "estimate_pose_OVE6D w img_folder image_id object_type scene_name =
     (case subprocess_run_check (cmd_OVE6D object_type scene_name) (returncode w) of
        Inl (CalledProcessError _) \<Rightarrow> Inr \<lparr>position = [0, 0, 0], rotation = [0, 0, 0, 1]\<rparr>
      | Inl e \<Rightarrow> Inl e
      | Inr _ \<Rightarrow>
          (let csv_path = os_path_join [''.'', ''Dataspace'', ''lm'', ''outputs'', ''predictions.csv'']
           in case files w csv_path of
                None \<Rightarrow> Inr \<lparr>position = [0, 0, 0], rotation = [0, 0, 0, 0, 0, 0, 0, 0, 0]\<rparr>
              | Some [] \<Rightarrow> Inr \<lparr>position = [0, 0, 0], rotation = [0, 0, 0, 1]\<rparr>
              | Some (row # _) \<Rightarrow>
                  (case row ''R'' of
                     None \<Rightarrow> Inl KeyError
                   | Some R_text \<Rightarrow>
                       (case floats_of R_text of
                          Inl e \<Rightarrow> Inl e
                        | Inr R_vals \<Rightarrow>
                            (case row ''t'' of
                               None \<Rightarrow> Inl KeyError
                             | Some t_text \<Rightarrow>
                                 (case floats_of t_text of
                                    Inl e \<Rightarrow> Inl e
                                  | Inr t_vals \<Rightarrow>
                                      Inr \<lparr>position = t_vals, rotation = R_vals\<rparr>))))))"

subsection \<open>The session loop\<close>

text \<open>
  A session, as far as the reply depends on it: the \<open>objectType\<close> and \<open>sceneName\<close>
  of its header, when present, and what the pipeline leaves behind during it.
  \<open>handler\<close> replies to the sessions of one connection in order, and the connection
  ends with the first exception that leaves \<open>estimate_pose\<close>. The result is the list
  of replies sent.
\<close>

record 'a session =
  objectType :: "string option"
  sceneName :: "string option"
  outcome :: "'a world"

definition img_id :: string where
  "img_id = ''000000''"

fun handler_GigaPose :: "npz session list \<Rightarrow> pose list" where
  "handler_GigaPose [] = []"
| "handler_GigaPose (s # ss) =
     (case estimate_pose_GigaPose (outcome s) (os_path_join [EXPORT_ROOT, img_id]) img_id
             (objectType s) (sceneName s) of
        Inl e \<Rightarrow> []
      | Inr pose \<Rightarrow> pose # handler_GigaPose ss)"

fun handler_MegaPose :: "json_file session list \<Rightarrow> pose list" where
  "handler_MegaPose [] = []"
| "handler_MegaPose (s # ss) =
     (case estimate_pose_MegaPose (outcome s) (os_path_join [EXPORT_ROOT, img_id]) img_id
             (objectType s) (sceneName s) of
        Inl e \<Rightarrow> []
      | Inr pose \<Rightarrow> pose # handler_MegaPose ss)"

fun handler_OVE6D :: "csv_row list session list \<Rightarrow> pose list" where
  "handler_OVE6D [] = []"
| "handler_OVE6D (s # ss) =
     (case estimate_pose_OVE6D (outcome s) (os_path_join [EXPORT_ROOT, img_id]) img_id
             (objectType s) (sceneName s) of
        Inl e \<Rightarrow> []
      | Inr pose \<Rightarrow> pose # handler_OVE6D ss)"

subsection \<open>Example data\<close>

text \<open>
  The 4x4 homogeneous matrix with the rotation block \<open>R\<close> (nine numbers, row-major) and
  the translation \<open>t\<close>, and the result files used in the examples below.
\<close>

definition pose_matrix :: "real list \<Rightarrow> real list \<Rightarrow> matrix" where
  "pose_matrix R t =
     (\<lambda>i j. if i < 3 \<and> j < 3 then R ! (3 * i + j)
            else if i < 3 \<and> j = 3 then t ! i
            else if i = 3 \<and> j = 3 then 1 else 0)"

definition example_npz :: npz where
  "example_npz =
     \<lparr>poses = [pose_matrix [1,0,0, 0,1,0, 0,0,1] [1, 2, 3],
                pose_matrix [0,-1,0, 1,0,0, 0,0,1] [4, 5, 6],
                pose_matrix [1,0,0, 0,-1,0, 0,0,-1] [7, 8, 9]],
      scores = [0.2, 0.9, 0.5]\<rparr>"

definition npz_world :: "int \<Rightarrow> npz option \<Rightarrow> npz world" where
  "npz_world rc content =
     \<lparr>returncode = rc,
      files = (\<lambda>p. if p = ''gigaPose_datasets/results/large_000000/predictions/0.npz''
                    then content else None)\<rparr>"

definition json_world :: "int \<Rightarrow> json_file option \<Rightarrow> json_file world" where
  "json_world rc content =
     \<lparr>returncode = rc,
      files = (\<lambda>p. if p = ''local_data/examples/barbecue-sauce/outputs/object_data.json''
                    then content else None)\<rparr>"

definition csv_world :: "int \<Rightarrow> csv_row list option \<Rightarrow> csv_row list world" where
  "csv_world rc content =
     \<lparr>returncode = rc,
      files = (\<lambda>p. if p = ''./Dataspace/lm/outputs/predictions.csv'' then content else None)\<rparr>"

section \<open>The pipeline scripts: running the stages\<close>

text \<open>
  A stage of a pipeline script is one call \<open>run(cmd, cwd)\<close>: an external command and
  the directory it runs in. The log of a script holds the commands it has invoked, in
  order, and the lines it has written to standard error; the progress lines on standard
  output are left out. The exit status of a command is given by the environment, as a
  function of the commands invoked before it and of the command itself.
\<close>

type_synonym stage = "string list \<times> string option"

type_synonym shell = "stage list \<Rightarrow> stage \<Rightarrow> int"

record log =
  invoked :: "stage list"
  stderr :: "string list"

text \<open>\<open>' '.join(cmd)\<close>.\<close>

fun join_words :: "string list \<Rightarrow> string" where
  "join_words [] = []"
| "join_words [w] = w"
| "join_words (w # ws) = w @ '' '' @ join_words ws"

text \<open>
  \<open>run\<close> of \<open>GigaPose/pipeline.py\<close>, lines 22 to 27. \<open>sys.exit(code)\<close> ends the
  script: the result \<open>Inl (code, log)\<close> is the SystemExit with its code and the log at
  that moment, and \<open>Inr log\<close> is the normal return.
\<close>

definition run :: "shell \<Rightarrow> stage \<Rightarrow> log \<Rightarrow> (int \<times> log) + log" where
  "run sh st l =
     (let returncode = sh (invoked l) st;
          l' = l\<lparr>invoked := invoked l @ [st]\<rparr>
      in if returncode \<noteq> 0
         then Inl (returncode, l'\<lparr>stderr := stderr l' @ [''Step failed: '' @ join_words (fst st)]\<rparr>)
         else Inr l')"

text \<open>\<open>run\<close> of \<open>FoundationPose/pipeline.py\<close>, lines 12 to 17: the same, with another message.\<close>

definition run_FoundationPose :: "shell \<Rightarrow> stage \<Rightarrow> log \<Rightarrow> (int \<times> log) + log" where
  "run_FoundationPose sh st l =
     (let returncode = sh (invoked l) st;
          l' = l\<lparr>invoked := invoked l @ [st]\<rparr>
      in if returncode \<noteq> 0
         then Inl (returncode,
                   l'\<lparr>stderr := stderr l' @ [''[error] Command failed: '' @ join_words (fst st)]\<rparr>)
         else Inr l')"

text \<open>
  A script that calls \<open>run\<close> on its stages one after the other; \<open>r\<close> is the \<open>run\<close>
  function of the script. No script catches SystemExit, so the first exit ends it.
\<close>

fun run_stages :: "(stage \<Rightarrow> log \<Rightarrow> (int \<times> log) + log) \<Rightarrow> stage list \<Rightarrow> log \<Rightarrow> (int \<times> log) + log" where
  "run_stages r [] l = Inr l"
| "run_stages r (st # sts) l =
     (case r st l of Inl x \<Rightarrow> Inl x | Inr l' \<Rightarrow> run_stages r sts l')"

text \<open>
  The exit status of the script after \<open>sys.exit(code)\<close>, as its parent process reads
  it on POSIX: the low eight bits of the code.
\<close>

definition exit_status :: "int \<Rightarrow> int" where
  "exit_status code = code mod 256"

section \<open>The GigaPose pipeline: command line and main\<close>

subsection \<open>The argument parser\<close>
















subsection \<open>The steps of main\<close>












section \<open>Verification of the pose math\<close>

lemma rmq_trace:
  assumes "M 0 0 + M 1 1 + M 2 2 > 0"
  shows "rotation_matrix_to_quaternion M = shepperd_trace M"
proof -
  have "sqrt (M 0 0 + M 1 1 + M 2 2 + 1) > 0" using assms by simp
  then show ?thesis using assms
    by (simp add: rotation_matrix_to_quaternion_def shepperd_trace_def Let_def field_simps)
qed

lemma rmq_diag0:
  assumes "\<not> M 0 0 + M 1 1 + M 2 2 > 0" "M 0 0 > M 1 1 \<and> M 0 0 > M 2 2"
  shows "rotation_matrix_to_quaternion M = shepperd_diag 0 M"
  unfolding rotation_matrix_to_quaternion_def shepperd_diag_def Let_def
  by (simp only: assms if_True if_False refl) (simp add: field_simps)

lemma rmq_diag1:
  assumes "\<not> M 0 0 + M 1 1 + M 2 2 > 0" "\<not> (M 0 0 > M 1 1 \<and> M 0 0 > M 2 2)" "M 1 1 > M 2 2"
  shows "rotation_matrix_to_quaternion M = shepperd_diag 1 M"
  unfolding rotation_matrix_to_quaternion_def shepperd_diag_def Let_def
  by (simp only: assms if_True if_False refl) (simp add: field_simps)

lemma rmq_diag2:
  assumes "\<not> M 0 0 + M 1 1 + M 2 2 > 0" "\<not> (M 0 0 > M 1 1 \<and> M 0 0 > M 2 2)" "\<not> M 1 1 > M 2 2"
  shows "rotation_matrix_to_quaternion M = shepperd_diag 2 M"
  unfolding rotation_matrix_to_quaternion_def shepperd_diag_def Let_def
  by (simp only: assms if_True if_False refl) (simp add: field_simps)


lemma quat_to_rotm_neg:
  "quat_to_rotm [- x, - y, - z, - w] = quat_to_rotm [x, y, z, w]"
  by (simp add: Let_def)





lemma quat_to_rotm_scaled:
  fixes X Y Z W p :: real
  assumes p: "p > 0" and norm: "X*X + Y*Y + Z*Z + W*W = 4 * p"
  shows "quat_to_rotm [X / (2 * sqrt p), Y / (2 * sqrt p), Z / (2 * sqrt p), W / (2 * sqrt p)] =
     Inr [1 - (Y*Y + Z*Z) / (2*p), (X*Y - W*Z) / (2*p), (X*Z + W*Y) / (2*p),
          (X*Y + W*Z) / (2*p), 1 - (X*X + Z*Z) / (2*p), (Y*Z - W*X) / (2*p),
          (X*Z - W*Y) / (2*p), (Y*Z + W*X) / (2*p), 1 - (X*X + Y*Y) / (2*p)]"
proof -
  define r where "r = sqrt p"
  have r: "r > 0" "r * r = p" using p by (simp_all add: r_def)
  have sq: "\<And>u v. (u / (2 * r)) * (v / (2 * r)) = (u * v) / (4 * p)"
    using r by (simp add: field_simps)
  have "X / (2 * r) * (X / (2 * r)) + Y / (2 * r) * (Y / (2 * r)) + Z / (2 * r) * (Z / (2 * r))
        + W / (2 * r) * (W / (2 * r)) = (X*X + Y*Y + Z*Z + W*W) / (4 * p)"
    unfolding sq by (simp add: add_divide_distrib)
  also have "\<dots> = 1" using p norm by simp
  finally have n1: "X / (2 * r) * (X / (2 * r)) + Y / (2 * r) * (Y / (2 * r)) + Z / (2 * r) * (Z / (2 * r))
        + W / (2 * r) * (W / (2 * r)) = 1" .
  have e: "\<And>u v. 2 * ((u / (2 * r)) * (v / (2 * r))) = (u * v) / (2 * p)"
    using r p by (simp add: field_simps)
  show ?thesis
    unfolding r_def[symmetric]
    apply (simp only: quat_to_rotm.simps n1 Let_def real_sqrt_one)
    apply (simp add: r(2) diff_divide_distrib add_divide_distrib)
    done
qed

lemma rot_rows:
  fixes a b c d e f g h i :: real
  assumes n0: "a*a + b*b + c*c = 1" and n1: "d*d + e*e + f*f = 1" and n2: "g*g + h*h + i*i = 1"
    and o01: "a*d + b*e + c*f = 0" and o02: "a*g + b*h + c*i = 0" and o12: "d*g + e*h + f*i = 0"
    and det: "a*(e*i - f*h) - b*(d*i - f*g) + c*(d*h - e*g) = 1"
  shows "a = e*i - f*h \<and> b = f*g - d*i \<and> c = d*h - e*g"
proof -
  have lag: "(e*i - f*h)^2 + (f*g - d*i)^2 + (d*h - e*g)^2
           = (d*d + e*e + f*f) * (g*g + h*h + i*i) - (d*g + e*h + f*i)^2"
    by (simp add: power2_eq_square algebra_simps)
  have "(a - (e*i - f*h))^2 + (b - (f*g - d*i))^2 + (c - (d*h - e*g))^2
      = (a*a + b*b + c*c)
        - 2 * (a*(e*i - f*h) - b*(d*i - f*g) + c*(d*h - e*g))
        + ((e*i - f*h)^2 + (f*g - d*i)^2 + (d*h - e*g)^2)"
    by (simp add: power2_eq_square algebra_simps)
  also have "\<dots> = 0"
    unfolding lag n0 n1 n2 o12 det by simp
  finally have z: "(a - (e*i - f*h))^2 + (b - (f*g - d*i))^2 + (c - (d*h - e*g))^2 = 0" .
  have "(a - (e*i - f*h))^2 = 0 \<and> (b - (f*g - d*i))^2 = 0 \<and> (c - (d*h - e*g))^2 = 0"
    using z zero_le_power2[of "a - (e*i - f*h)"] zero_le_power2[of "b - (f*g - d*i)"]
      zero_le_power2[of "c - (d*h - e*g)"] by linarith
  then show ?thesis by simp
qed

lemma rot_cofactors:
  fixes a b c d e f g h i :: real
  assumes n0: "a*a + b*b + c*c = 1" and n1: "d*d + e*e + f*f = 1" and n2: "g*g + h*h + i*i = 1"
    and o01: "a*d + b*e + c*f = 0" and o02: "a*g + b*h + c*i = 0" and o12: "d*g + e*h + f*i = 0"
    and det: "a*(e*i - f*h) - b*(d*i - f*g) + c*(d*h - e*g) = 1"
  shows "a = e*i - f*h" "b = f*g - d*i" "c = d*h - e*g"
        "d = c*h - b*i" "e = a*i - c*g" "f = b*g - a*h"
        "g = b*f - c*e" "h = c*d - a*f" "i = a*e - b*d"
proof -
  show "a = e*i - f*h" "b = f*g - d*i" "c = d*h - e*g"
    using rot_rows[OF n0 n1 n2 o01 o02 o12 det] by simp_all
  have o20: "g*a + h*b + i*c = 0" and o10: "d*a + e*b + f*c = 0" and o21: "g*d + h*e + i*f = 0"
    using o01 o02 o12 by (simp_all add: algebra_simps)
  have det1: "d*(h*c - i*b) - e*(g*c - i*a) + f*(g*b - h*a) = 1"
    using det by (simp add: algebra_simps)
  show "d = c*h - b*i" "e = a*i - c*g" "f = b*g - a*h"
    using rot_rows[OF n1 n2 n0 o12 o10 o20 det1] by (simp_all add: algebra_simps)
  have det2: "g*(b*f - c*e) - h*(a*f - c*d) + i*(a*e - b*d) = 1"
    using det by (simp add: algebra_simps)
  show "g = b*f - c*e" "h = c*d - a*f" "i = a*e - b*d"
    using rot_rows[OF n2 n0 n1 o20 o21 o01 det2] by (simp_all add: algebra_simps)
qed


lemma rot_columns:
  fixes a b c d e f g h i :: real
  assumes n0: "a*a + b*b + c*c = 1" and n1: "d*d + e*e + f*f = 1" and n2: "g*g + h*h + i*i = 1"
    and o01: "a*d + b*e + c*f = 0" and o02: "a*g + b*h + c*i = 0" and o12: "d*g + e*h + f*i = 0"
    and det: "a*(e*i - f*h) - b*(d*i - f*g) + c*(d*h - e*g) = 1"
  shows "a*a + d*d + g*g = 1" "b*b + e*e + h*h = 1" "c*c + f*f + i*i = 1"
        "a*b + d*e + g*h = 0" "a*c + d*f + g*i = 0" "b*c + e*f + h*i = 0"
  using rot_cofactors[OF assms] assms by algebra+

lemma rot_pivot_trace:
  fixes a b c d e f g h i :: real
  assumes n0: "a*a + b*b + c*c = 1" and n1: "d*d + e*e + f*f = 1" and n2: "g*g + h*h + i*i = 1"
    and o01: "a*d + b*e + c*f = 0" and o02: "a*g + b*h + c*i = 0" and o12: "d*g + e*h + f*i = 0"
    and det: "a*(e*i - f*h) - b*(d*i - f*g) + c*(d*h - e*g) = 1"
  shows "(h-f)*(h-f) + (c-g)*(c-g) + (d-b)*(d-b) + (1+a+e+i)*(1+a+e+i) = 4*(1+a+e+i)"
        "2*(1+a+e+i) - ((c-g)*(c-g) + (d-b)*(d-b)) = 2*(1+a+e+i)*a"
        "(h-f)*(c-g) - (1+a+e+i)*(d-b) = 2*(1+a+e+i)*b"
        "(h-f)*(d-b) + (1+a+e+i)*(c-g) = 2*(1+a+e+i)*c"
        "(h-f)*(c-g) + (1+a+e+i)*(d-b) = 2*(1+a+e+i)*d"
        "2*(1+a+e+i) - ((h-f)*(h-f) + (d-b)*(d-b)) = 2*(1+a+e+i)*e"
        "(c-g)*(d-b) - (1+a+e+i)*(h-f) = 2*(1+a+e+i)*f"
        "(h-f)*(d-b) - (1+a+e+i)*(c-g) = 2*(1+a+e+i)*g"
        "(c-g)*(d-b) + (1+a+e+i)*(h-f) = 2*(1+a+e+i)*h"
        "2*(1+a+e+i) - ((h-f)*(h-f) + (c-g)*(c-g)) = 2*(1+a+e+i)*i"
  using rot_cofactors[OF assms] rot_columns[OF assms] assms by algebra+

lemma rot_pivot_diag0:
  fixes a b c d e f g h i :: real
  assumes n0: "a*a + b*b + c*c = 1" and n1: "d*d + e*e + f*f = 1" and n2: "g*g + h*h + i*i = 1"
    and o01: "a*d + b*e + c*f = 0" and o02: "a*g + b*h + c*i = 0" and o12: "d*g + e*h + f*i = 0"
    and det: "a*(e*i - f*h) - b*(d*i - f*g) + c*(d*h - e*g) = 1"
  shows "(1+a-e-i)*(1+a-e-i) + (b+d)*(b+d) + (c+g)*(c+g) + (h-f)*(h-f) = 4*(1+a-e-i)"
        "2*(1+a-e-i) - ((b+d)*(b+d) + (c+g)*(c+g)) = 2*(1+a-e-i)*a"
        "(1+a-e-i)*(b+d) - (h-f)*(c+g) = 2*(1+a-e-i)*b"
        "(1+a-e-i)*(c+g) + (h-f)*(b+d) = 2*(1+a-e-i)*c"
        "(1+a-e-i)*(b+d) + (h-f)*(c+g) = 2*(1+a-e-i)*d"
        "2*(1+a-e-i) - ((1+a-e-i)*(1+a-e-i) + (c+g)*(c+g)) = 2*(1+a-e-i)*e"
        "(b+d)*(c+g) - (h-f)*(1+a-e-i) = 2*(1+a-e-i)*f"
        "(1+a-e-i)*(c+g) - (h-f)*(b+d) = 2*(1+a-e-i)*g"
        "(b+d)*(c+g) + (h-f)*(1+a-e-i) = 2*(1+a-e-i)*h"
        "2*(1+a-e-i) - ((1+a-e-i)*(1+a-e-i) + (b+d)*(b+d)) = 2*(1+a-e-i)*i"
  using rot_cofactors[OF assms] rot_columns[OF assms] assms by algebra+

lemma rot_pivot_diag1:
  fixes a b c d e f g h i :: real
  assumes n0: "a*a + b*b + c*c = 1" and n1: "d*d + e*e + f*f = 1" and n2: "g*g + h*h + i*i = 1"
    and o01: "a*d + b*e + c*f = 0" and o02: "a*g + b*h + c*i = 0" and o12: "d*g + e*h + f*i = 0"
    and det: "a*(e*i - f*h) - b*(d*i - f*g) + c*(d*h - e*g) = 1"
  shows "(b+d)*(b+d) + (1+e-a-i)*(1+e-a-i) + (f+h)*(f+h) + (c-g)*(c-g) = 4*(1+e-a-i)"
        "2*(1+e-a-i) - ((1+e-a-i)*(1+e-a-i) + (f+h)*(f+h)) = 2*(1+e-a-i)*a"
        "(b+d)*(1+e-a-i) - (c-g)*(f+h) = 2*(1+e-a-i)*b"
        "(b+d)*(f+h) + (c-g)*(1+e-a-i) = 2*(1+e-a-i)*c"
        "(b+d)*(1+e-a-i) + (c-g)*(f+h) = 2*(1+e-a-i)*d"
        "2*(1+e-a-i) - ((b+d)*(b+d) + (f+h)*(f+h)) = 2*(1+e-a-i)*e"
        "(1+e-a-i)*(f+h) - (c-g)*(b+d) = 2*(1+e-a-i)*f"
        "(b+d)*(f+h) - (c-g)*(1+e-a-i) = 2*(1+e-a-i)*g"
        "(1+e-a-i)*(f+h) + (c-g)*(b+d) = 2*(1+e-a-i)*h"
        "2*(1+e-a-i) - ((b+d)*(b+d) + (1+e-a-i)*(1+e-a-i)) = 2*(1+e-a-i)*i"
  using rot_cofactors[OF assms] rot_columns[OF assms] assms by algebra+

lemma rot_pivot_diag2:
  fixes a b c d e f g h i :: real
  assumes n0: "a*a + b*b + c*c = 1" and n1: "d*d + e*e + f*f = 1" and n2: "g*g + h*h + i*i = 1"
    and o01: "a*d + b*e + c*f = 0" and o02: "a*g + b*h + c*i = 0" and o12: "d*g + e*h + f*i = 0"
    and det: "a*(e*i - f*h) - b*(d*i - f*g) + c*(d*h - e*g) = 1"
  shows "(c+g)*(c+g) + (f+h)*(f+h) + (1+i-a-e)*(1+i-a-e) + (d-b)*(d-b) = 4*(1+i-a-e)"
        "2*(1+i-a-e) - ((f+h)*(f+h) + (1+i-a-e)*(1+i-a-e)) = 2*(1+i-a-e)*a"
        "(c+g)*(f+h) - (d-b)*(1+i-a-e) = 2*(1+i-a-e)*b"
        "(c+g)*(1+i-a-e) + (d-b)*(f+h) = 2*(1+i-a-e)*c"
        "(c+g)*(f+h) + (d-b)*(1+i-a-e) = 2*(1+i-a-e)*d"
        "2*(1+i-a-e) - ((c+g)*(c+g) + (1+i-a-e)*(1+i-a-e)) = 2*(1+i-a-e)*e"
        "(f+h)*(1+i-a-e) - (d-b)*(c+g) = 2*(1+i-a-e)*f"
        "(c+g)*(1+i-a-e) - (d-b)*(f+h) = 2*(1+i-a-e)*g"
        "(f+h)*(1+i-a-e) + (d-b)*(c+g) = 2*(1+i-a-e)*h"
        "2*(1+i-a-e) - ((c+g)*(c+g) + (f+h)*(f+h)) = 2*(1+i-a-e)*i"
  using rot_cofactors[OF assms] rot_columns[OF assms] assms by algebra+


lemma quat_to_rotm_pivot:
  fixes X Y Z W p :: real
  assumes p: "p > 0" and norm: "X*X + Y*Y + Z*Z + W*W = 4 * p"
    and "2*p - (Y*Y + Z*Z) = 2*p*a" "X*Y - W*Z = 2*p*b" "X*Z + W*Y = 2*p*c"
        "X*Y + W*Z = 2*p*d" "2*p - (X*X + Z*Z) = 2*p*e" "Y*Z - W*X = 2*p*f"
        "X*Z - W*Y = 2*p*g" "Y*Z + W*X = 2*p*h" "2*p - (X*X + Y*Y) = 2*p*i"
  shows "quat_to_rotm [X / (2 * sqrt p), Y / (2 * sqrt p), Z / (2 * sqrt p), W / (2 * sqrt p)] =
     Inr [a, b, c, d, e, f, g, h, i]"
proof -
  have "1 - (Y*Y + Z*Z) / (2*p) = (2*p - (Y*Y + Z*Z)) / (2*p)"
       "1 - (X*X + Z*Z) / (2*p) = (2*p - (X*X + Z*Z)) / (2*p)"
       "1 - (X*X + Y*Y) / (2*p) = (2*p - (X*X + Y*Y)) / (2*p)"
    using p by (simp_all add: diff_divide_distrib)
  then show ?thesis
    unfolding quat_to_rotm_scaled[OF p norm] using p by (simp add: assms(3-))
qed

lemma pivot_scale:
  fixes p u :: real
  assumes "p > 0"
  shows "u * (0.5 / sqrt p) = u / (2 * sqrt p)"
    and "0.25 / (0.5 / sqrt p) = p / (2 * sqrt p)"
    and "u / (2.0 * sqrt p) = u / (2 * sqrt p)"
    and "0.25 * (2.0 * sqrt p) = p / (2 * sqrt p)"
proof -
  have r: "sqrt p > 0" "sqrt p * sqrt p = p" using assms by simp_all
  show "u * (0.5 / sqrt p) = u / (2 * sqrt p)" "u / (2.0 * sqrt p) = u / (2 * sqrt p)"
    by simp_all
  show "0.25 / (0.5 / sqrt p) = p / (2 * sqrt p)" "0.25 * (2.0 * sqrt p) = p / (2 * sqrt p)"
    using r by (simp_all add: field_simps)
qed

lemma rmq_shape_trace:
  assumes "M 0 0 + M 1 1 + M 2 2 > 0"
  shows "rotation_matrix_to_quaternion M =
    [(M 2 1 - M 1 2) / (2 * sqrt (1 + M 0 0 + M 1 1 + M 2 2)),
     (M 0 2 - M 2 0) / (2 * sqrt (1 + M 0 0 + M 1 1 + M 2 2)),
     (M 1 0 - M 0 1) / (2 * sqrt (1 + M 0 0 + M 1 1 + M 2 2)),
     (1 + M 0 0 + M 1 1 + M 2 2) / (2 * sqrt (1 + M 0 0 + M 1 1 + M 2 2))]"
proof -
  define p where "p = 1 + M 0 0 + M 1 1 + M 2 2"
  have p: "p > 0" using assms by (simp add: p_def)
  have pe: "M 0 0 + M 1 1 + M 2 2 + 1.0 = p" by (simp add: p_def)
  show ?thesis
    unfolding rotation_matrix_to_quaternion_def Let_def p_def[symmetric]
    by (simp only: assms if_True pe pivot_scale[OF p])
qed

lemma rmq_shape_diag0:
  assumes "\<not> M 0 0 + M 1 1 + M 2 2 > 0" "M 0 0 > M 1 1 \<and> M 0 0 > M 2 2"
  shows "rotation_matrix_to_quaternion M =
    [(1 + M 0 0 - M 1 1 - M 2 2) / (2 * sqrt (1 + M 0 0 - M 1 1 - M 2 2)),
     (M 0 1 + M 1 0) / (2 * sqrt (1 + M 0 0 - M 1 1 - M 2 2)),
     (M 0 2 + M 2 0) / (2 * sqrt (1 + M 0 0 - M 1 1 - M 2 2)),
     (M 2 1 - M 1 2) / (2 * sqrt (1 + M 0 0 - M 1 1 - M 2 2))]"
proof -
  define p where "p = 1 + M 0 0 - M 1 1 - M 2 2"
  have p: "p > 0" using assms by (simp add: p_def)
  have pe: "1.0 + M 0 0 - M 1 1 - M 2 2 = p" by (simp add: p_def)
  show ?thesis
    unfolding rotation_matrix_to_quaternion_def Let_def p_def[symmetric]
    by (simp only: assms simp_thms if_True if_False pe pivot_scale[OF p])
qed

lemma rmq_shape_diag1:
  assumes "\<not> M 0 0 + M 1 1 + M 2 2 > 0" "\<not> (M 0 0 > M 1 1 \<and> M 0 0 > M 2 2)" "M 1 1 > M 2 2"
  shows "rotation_matrix_to_quaternion M =
    [(M 0 1 + M 1 0) / (2 * sqrt (1 + M 1 1 - M 0 0 - M 2 2)),
     (1 + M 1 1 - M 0 0 - M 2 2) / (2 * sqrt (1 + M 1 1 - M 0 0 - M 2 2)),
     (M 1 2 + M 2 1) / (2 * sqrt (1 + M 1 1 - M 0 0 - M 2 2)),
     (M 0 2 - M 2 0) / (2 * sqrt (1 + M 1 1 - M 0 0 - M 2 2))]"
proof -
  define p where "p = 1 + M 1 1 - M 0 0 - M 2 2"
  have p: "p > 0" using assms unfolding p_def by linarith
  have pe: "1.0 + M 1 1 - M 0 0 - M 2 2 = p" by (simp add: p_def)
  show ?thesis
    unfolding rotation_matrix_to_quaternion_def Let_def p_def[symmetric]
    by (simp only: assms simp_thms if_True if_False pe pivot_scale[OF p])
qed

lemma rmq_shape_diag2:
  assumes "\<not> M 0 0 + M 1 1 + M 2 2 > 0" "\<not> (M 0 0 > M 1 1 \<and> M 0 0 > M 2 2)" "\<not> M 1 1 > M 2 2"
  shows "rotation_matrix_to_quaternion M =
    [(M 0 2 + M 2 0) / (2 * sqrt (1 + M 2 2 - M 0 0 - M 1 1)),
     (M 1 2 + M 2 1) / (2 * sqrt (1 + M 2 2 - M 0 0 - M 1 1)),
     (1 + M 2 2 - M 0 0 - M 1 1) / (2 * sqrt (1 + M 2 2 - M 0 0 - M 1 1)),
     (M 1 0 - M 0 1) / (2 * sqrt (1 + M 2 2 - M 0 0 - M 1 1))]"
proof -
  define p where "p = 1 + M 2 2 - M 0 0 - M 1 1"
  have p: "p > 0" using assms unfolding p_def by linarith
  have pe: "1.0 + M 2 2 - M 0 0 - M 1 1 = p" by (simp add: p_def)
  show ?thesis
    unfolding rotation_matrix_to_quaternion_def Let_def p_def[symmetric]
    by (simp only: assms simp_thms if_True if_False pe pivot_scale[OF p])
qed




subsection \<open>Claim C7: branch selection of the matrix to quaternion conversion\<close>

text \<open>
  Claim C7. For every 3x3 input \<open>M\<close>, \<open>rotation_matrix_to_quaternion\<close> follows
  Shepperd's branch selection. When the trace is positive the output is the direct
  square-root formula. Otherwise the output is the formula of a pivot \<open>k\<close> whose diagonal
  entry is a largest one among \<open>M 0 0\<close>, \<open>M 1 1\<close> and \<open>M 2 2\<close>; and when one diagonal
  entry is strictly the largest, the pivot is that entry.
\<close>

theorem rotation_matrix_to_quaternion_shepperd:
  "(M 0 0 + M 1 1 + M 2 2 > 0 \<longrightarrow> rotation_matrix_to_quaternion M = shepperd_trace M) \<and>
   (M 0 0 + M 1 1 + M 2 2 \<le> 0 \<longrightarrow>
      (\<exists>k<3. largest_diag M k \<and> rotation_matrix_to_quaternion M = shepperd_diag k M)) \<and>
   (M 0 0 + M 1 1 + M 2 2 \<le> 0 \<and> k < 3 \<and> (\<forall>j<3. j \<noteq> k \<longrightarrow> M j j < M k k) \<longrightarrow>
      rotation_matrix_to_quaternion M = shepperd_diag k M)"
proof (intro conjI impI)
  assume "M 0 0 + M 1 1 + M 2 2 > 0"
  then show "rotation_matrix_to_quaternion M = shepperd_trace M" by (rule rmq_trace[of M])
next
  assume t: "M 0 0 + M 1 1 + M 2 2 \<le> 0"
  then have nt: "\<not> M 0 0 + M 1 1 + M 2 2 > 0" by simp
  consider (a) "M 0 0 > M 1 1 \<and> M 0 0 > M 2 2"
    | (b) "\<not> (M 0 0 > M 1 1 \<and> M 0 0 > M 2 2)" "M 1 1 > M 2 2"
    | (c) "\<not> (M 0 0 > M 1 1 \<and> M 0 0 > M 2 2)" "\<not> M 1 1 > M 2 2"
    by blast
  then show "\<exists>k<3. largest_diag M k \<and> rotation_matrix_to_quaternion M = shepperd_diag k M"
  proof cases
    case a
    then have "largest_diag M 0" by (simp add: largest_diag_def)
    with rmq_diag0[of M, OF nt a] show ?thesis by (intro exI[of _ 0]) simp
  next
    case b
    then have "largest_diag M 1" by (auto simp: largest_diag_def)
    with rmq_diag1[of M, OF nt b] show ?thesis by (intro exI[of _ 1]) simp
  next
    case c
    then have "largest_diag M 2" by (auto simp: largest_diag_def)
    with rmq_diag2[of M, OF nt c] show ?thesis by (intro exI[of _ 2]) simp
  qed
next
  assume h: "M 0 0 + M 1 1 + M 2 2 \<le> 0 \<and> k < 3 \<and> (\<forall>j<3. j \<noteq> k \<longrightarrow> M j j < M k k)"
  then have nt: "\<not> M 0 0 + M 1 1 + M 2 2 > 0" by simp
  from h have "k = 0 \<or> k = 1 \<or> k = 2" by auto
  then show "rotation_matrix_to_quaternion M = shepperd_diag k M"
  proof (elim disjE)
    assume k: "k = 0"
    with h have "M 1 1 < M 0 0 \<and> M 2 2 < M 0 0" by simp
    then show ?thesis using rmq_diag0[of M, OF nt] k by simp
  next
    assume k: "k = 1"
    with h have "M 0 0 < M 1 1" "M 2 2 < M 1 1" by simp_all
    then show ?thesis using rmq_diag1[of M, OF nt] k by simp
  next
    assume k: "k = 2"
    with h have "M 0 0 < M 2 2" "M 1 1 < M 2 2" by simp_all
    then show ?thesis using rmq_diag2[of M, OF nt] k by simp
  qed
qed

text \<open>
  The four branches at hand-computed inputs: the identity (positive trace) and the half
  turns about the x, y and z axes, each of which has a different largest diagonal entry.
\<close>

theorem rotation_matrix_to_quaternion_shepperd_witness:
  "rotation_matrix_to_quaternion (mat3 [1,0,0, 0,1,0, 0,0,1]) = shepperd_trace (mat3 [1,0,0, 0,1,0, 0,0,1]) \<and>
   shepperd_trace (mat3 [1,0,0, 0,1,0, 0,0,1]) = [0, 0, 0, 1] \<and>
   rotation_matrix_to_quaternion (mat3 [1,0,0, 0,-1,0, 0,0,-1]) = shepperd_diag 0 (mat3 [1,0,0, 0,-1,0, 0,0,-1]) \<and>
   shepperd_diag 0 (mat3 [1,0,0, 0,-1,0, 0,0,-1]) = [1, 0, 0, 0] \<and>
   rotation_matrix_to_quaternion (mat3 [-1,0,0, 0,1,0, 0,0,-1]) = shepperd_diag 1 (mat3 [-1,0,0, 0,1,0, 0,0,-1]) \<and>
   shepperd_diag 1 (mat3 [-1,0,0, 0,1,0, 0,0,-1]) = [0, 1, 0, 0] \<and>
   rotation_matrix_to_quaternion (mat3 [-1,0,0, 0,-1,0, 0,0,1]) = shepperd_diag 2 (mat3 [-1,0,0, 0,-1,0, 0,0,1]) \<and>
   shepperd_diag 2 (mat3 [-1,0,0, 0,-1,0, 0,0,1]) = [0, 0, 1, 0]"
proof -
  have t: "rotation_matrix_to_quaternion (mat3 [1,0,0, 0,1,0, 0,0,1]) = shepperd_trace (mat3 [1,0,0, 0,1,0, 0,0,1])"
    using rotation_matrix_to_quaternion_shepperd [of "mat3 [1,0,0, 0,1,0, 0,0,1]" 0]
    by (simp add: mat3_def)
  have x: "rotation_matrix_to_quaternion (mat3 [1,0,0, 0,-1,0, 0,0,-1]) = shepperd_diag 0 (mat3 [1,0,0, 0,-1,0, 0,0,-1])"
    using rotation_matrix_to_quaternion_shepperd [of "mat3 [1,0,0, 0,-1,0, 0,0,-1]" 0]
    by (simp add: mat3_def less_Suc_eq numeral_3_eq_3)
  have y: "rotation_matrix_to_quaternion (mat3 [-1,0,0, 0,1,0, 0,0,-1]) = shepperd_diag 1 (mat3 [-1,0,0, 0,1,0, 0,0,-1])"
    using rotation_matrix_to_quaternion_shepperd [of "mat3 [-1,0,0, 0,1,0, 0,0,-1]" 1]
    by (simp add: mat3_def less_Suc_eq numeral_3_eq_3)
  have z: "rotation_matrix_to_quaternion (mat3 [-1,0,0, 0,-1,0, 0,0,1]) = shepperd_diag 2 (mat3 [-1,0,0, 0,-1,0, 0,0,1])"
    using rotation_matrix_to_quaternion_shepperd [of "mat3 [-1,0,0, 0,-1,0, 0,0,1]" 2]
    by (simp add: mat3_def less_Suc_eq numeral_3_eq_3)
  show ?thesis
    using t x y z by (simp add: shepperd_trace_def shepperd_diag_def mat3_def)
qed

subsection \<open>Claim C9: the zero-norm quaternion\<close>




subsection \<open>Claim C2: the quaternion to matrix conversion inverts the matrix to quaternion conversion\<close>

text \<open>
  Claim C2. For every valid rotation matrix \<open>M\<close> (orthonormal rows, determinant 1),
  \<open>quat_to_rotm\<close> applied to \<open>rotation_matrix_to_quaternion M\<close> returns \<open>M\<close>, flattened
  row-major; and so it does on the negated quaternion, which represents the same
  rotation. The statement is about exact real arithmetic: the rounding of the
  floating-point operations, which the claim allows for as a tolerance, is not
  modelled.
\<close>

theorem quat_to_rotm_left_inverse:
  assumes "is_rotation M"
  shows "quat_to_rotm (rotation_matrix_to_quaternion M) = Inr (flatten3 M) \<and>
         quat_to_rotm (map uminus (rotation_matrix_to_quaternion M)) = Inr (flatten3 M)"
proof -
  define a b c d e f g h i where ent:
    "a = M 0 0" "b = M 0 1" "c = M 0 2" "d = M 1 0" "e = M 1 1" "f = M 1 2"
    "g = M 2 0" "h = M 2 1" "i = M 2 2"
  have rot: "a*a + b*b + c*c = 1" "d*d + e*e + f*f = 1" "g*g + h*h + i*i = 1"
    "a*d + b*e + c*f = 0" "a*g + b*h + c*i = 0" "d*g + e*h + f*i = 0"
    "a*(e*i - f*h) - b*(d*i - f*g) + c*(d*h - e*g) = 1"
    using assms unfolding is_rotation_def ent by blast+
  have flat: "flatten3 M = [a, b, c, d, e, f, g, h, i]"
    unfolding flatten3_def ent ..
  consider (tr) "M 0 0 + M 1 1 + M 2 2 > 0"
    | (d0) "\<not> M 0 0 + M 1 1 + M 2 2 > 0" "M 0 0 > M 1 1 \<and> M 0 0 > M 2 2"
    | (d1) "\<not> M 0 0 + M 1 1 + M 2 2 > 0" "\<not> (M 0 0 > M 1 1 \<and> M 0 0 > M 2 2)" "M 1 1 > M 2 2"
    | (d2) "\<not> M 0 0 + M 1 1 + M 2 2 > 0" "\<not> (M 0 0 > M 1 1 \<and> M 0 0 > M 2 2)" "\<not> M 1 1 > M 2 2"
    by blast
  then have main: "quat_to_rotm (rotation_matrix_to_quaternion M) = Inr [a, b, c, d, e, f, g, h, i]"
  proof cases
    case tr
    then have p: "1 + a + e + i > 0" unfolding ent by simp
    show ?thesis
      unfolding rmq_shape_trace[of M, OF tr] ent[symmetric]
      by (rule quat_to_rotm_pivot[OF p rot_pivot_trace[OF rot]])
  next
    case d0
    then have p: "1 + a - e - i > 0" unfolding ent by linarith
    show ?thesis
      unfolding rmq_shape_diag0[of M, OF d0] ent[symmetric]
      by (rule quat_to_rotm_pivot[OF p rot_pivot_diag0[OF rot]])
  next
    case d1
    then have p: "1 + e - a - i > 0" unfolding ent by linarith
    show ?thesis
      unfolding rmq_shape_diag1[of M, OF d1] ent[symmetric]
      by (rule quat_to_rotm_pivot[OF p rot_pivot_diag1[OF rot]])
  next
    case d2
    then have p: "1 + i - a - e > 0" unfolding ent by linarith
    show ?thesis
      unfolding rmq_shape_diag2[of M, OF d2] ent[symmetric]
      by (rule quat_to_rotm_pivot[OF p rot_pivot_diag2[OF rot]])
  qed
  have len: "\<exists>x y z w. rotation_matrix_to_quaternion M = [x, y, z, w]"
    using rmq_shape_trace[of M] rmq_shape_diag0[of M] rmq_shape_diag1[of M] rmq_shape_diag2[of M]
    by blast
  then obtain x y z w where q: "rotation_matrix_to_quaternion M = [x, y, z, w]" by blast
  have "quat_to_rotm (map uminus (rotation_matrix_to_quaternion M))
      = quat_to_rotm (rotation_matrix_to_quaternion M)"
    unfolding q using quat_to_rotm_neg[of x y z w] by simp
  with main flat show ?thesis by simp
qed

text \<open>
  The identity, and the quarter, half and three-quarter turns about the z axis, the
  half turn about the x axis and the quarter turn about the y axis.
\<close>

theorem quat_to_rotm_left_inverse_witness:
  "is_rotation (mat3 [1,0,0, 0,1,0, 0,0,1]) \<and>
   quat_to_rotm (rotation_matrix_to_quaternion (mat3 [1,0,0, 0,1,0, 0,0,1])) = Inr [1,0,0, 0,1,0, 0,0,1] \<and>
   is_rotation (mat3 [0,-1,0, 1,0,0, 0,0,1]) \<and>
   quat_to_rotm (rotation_matrix_to_quaternion (mat3 [0,-1,0, 1,0,0, 0,0,1])) = Inr [0,-1,0, 1,0,0, 0,0,1] \<and>
   is_rotation (mat3 [-1,0,0, 0,-1,0, 0,0,1]) \<and>
   quat_to_rotm (rotation_matrix_to_quaternion (mat3 [-1,0,0, 0,-1,0, 0,0,1])) = Inr [-1,0,0, 0,-1,0, 0,0,1] \<and>
   is_rotation (mat3 [0,1,0, -1,0,0, 0,0,1]) \<and>
   quat_to_rotm (rotation_matrix_to_quaternion (mat3 [0,1,0, -1,0,0, 0,0,1])) = Inr [0,1,0, -1,0,0, 0,0,1] \<and>
   is_rotation (mat3 [1,0,0, 0,-1,0, 0,0,-1]) \<and>
   quat_to_rotm (rotation_matrix_to_quaternion (mat3 [1,0,0, 0,-1,0, 0,0,-1])) = Inr [1,0,0, 0,-1,0, 0,0,-1] \<and>
   is_rotation (mat3 [0,0,1, 0,1,0, -1,0,0]) \<and>
   quat_to_rotm (rotation_matrix_to_quaternion (mat3 [0,0,1, 0,1,0, -1,0,0])) = Inr [0,0,1, 0,1,0, -1,0,0]"
proof -
  have r: "is_rotation (mat3 [1,0,0, 0,1,0, 0,0,1])" "is_rotation (mat3 [0,-1,0, 1,0,0, 0,0,1])"
    "is_rotation (mat3 [-1,0,0, 0,-1,0, 0,0,1])" "is_rotation (mat3 [0,1,0, -1,0,0, 0,0,1])"
    "is_rotation (mat3 [1,0,0, 0,-1,0, 0,0,-1])" "is_rotation (mat3 [0,0,1, 0,1,0, -1,0,0])"
    by (simp_all add: is_rotation_def mat3_def)
  have f: "flatten3 (mat3 [1,0,0, 0,1,0, 0,0,1]) = [1,0,0, 0,1,0, 0,0,1]"
    "flatten3 (mat3 [0,-1,0, 1,0,0, 0,0,1]) = [0,-1,0, 1,0,0, 0,0,1]"
    "flatten3 (mat3 [-1,0,0, 0,-1,0, 0,0,1]) = [-1,0,0, 0,-1,0, 0,0,1]"
    "flatten3 (mat3 [0,1,0, -1,0,0, 0,0,1]) = [0,1,0, -1,0,0, 0,0,1]"
    "flatten3 (mat3 [1,0,0, 0,-1,0, 0,0,-1]) = [1,0,0, 0,-1,0, 0,0,-1]"
    "flatten3 (mat3 [0,0,1, 0,1,0, -1,0,0]) = [0,0,1, 0,1,0, -1,0,0]"
    by (simp_all add: flatten3_def mat3_def)
  show ?thesis
    using r quat_to_rotm_left_inverse [OF r(1)] quat_to_rotm_left_inverse [OF r(2)]
      quat_to_rotm_left_inverse [OF r(3)] quat_to_rotm_left_inverse [OF r(4)]
      quat_to_rotm_left_inverse [OF r(5)] quat_to_rotm_left_inverse [OF r(6)]
    unfolding f by blast
qed

section \<open>Verification of the intrinsics parser\<close>














section \<open>Verification of the result normalization\<close>

lemma argmax_scan_props:
  assumes "best < i" "i = length pre" "pre ! best = v" "\<forall>j<length pre. pre ! j \<le> v"
    "\<forall>j<best. pre ! j < v"
  shows "let k = argmax_scan xs i best v in
           k < length (pre @ xs) \<and> (\<forall>j<length (pre @ xs). (pre @ xs) ! j \<le> (pre @ xs) ! k) \<and>
           (\<forall>j<k. (pre @ xs) ! j < (pre @ xs) ! k)"
  using assms
proof (induction xs arbitrary: i best v pre)
  case Nil
  then show ?case by (simp add: Let_def)
next
  case (Cons x xs)
  show ?case
  proof (cases "v < x")
    case True
    have 1: "i < Suc i" by simp
    have 2: "Suc i = length (pre @ [x])" using Cons.prems by simp
    have 3: "(pre @ [x]) ! i = x" using Cons.prems by (simp add: nth_append)
    have 4: "\<forall>j<length (pre @ [x]). (pre @ [x]) ! j \<le> x"
      using Cons.prems True by (auto simp: nth_append less_Suc_eq)
    have 5: "\<forall>j<i. (pre @ [x]) ! j < x"
      using Cons.prems True by (auto simp: nth_append)
    from Cons.IH[OF 1 2 3 4 5] True show ?thesis by (simp add: Let_def)
  next
    case False
    have 1: "best < Suc i" using Cons.prems by simp
    have 2: "Suc i = length (pre @ [x])" using Cons.prems by simp
    have 3: "(pre @ [x]) ! best = v" using Cons.prems by (simp add: nth_append)
    have 4: "\<forall>j<length (pre @ [x]). (pre @ [x]) ! j \<le> v"
      using Cons.prems False by (auto simp: nth_append less_Suc_eq)
    have 5: "\<forall>j<best. (pre @ [x]) ! j < v"
      using Cons.prems by (auto simp: nth_append)
    from Cons.IH[OF 1 2 3 4 5] False show ?thesis by (simp add: Let_def)
  qed
qed

lemma argmax_first_max:
  assumes "xs \<noteq> []"
  shows "\<exists>k. argmax xs = Inr k \<and> k < length xs \<and> (\<forall>j<length xs. xs ! j \<le> xs ! k) \<and>
             (\<forall>j<k. xs ! j < xs ! k)"
proof -
  from assms obtain x r where xs: "xs = x # r" by (cases xs) auto
  have "let k = argmax_scan r 1 0 x in
           k < length ([x] @ r) \<and> (\<forall>j<length ([x] @ r). ([x] @ r) ! j \<le> ([x] @ r) ! k) \<and>
           (\<forall>j<k. ([x] @ r) ! j < ([x] @ r) ! k)"
    by (rule argmax_scan_props) simp_all
  then show ?thesis unfolding xs by (simp add: Let_def)
qed

lemma cmd_GigaPose_complete:
  "None \<in> set (cmd_GigaPose img_folder image_id object_type scene_name) \<longleftrightarrow>
     object_type = None \<or> scene_name = None"
  by (auto simp: cmd_GigaPose_def)

lemma cmd_MegaPose_complete:
  "None \<in> set (cmd_MegaPose object_type scene_name) \<longleftrightarrow> object_type = None \<or> scene_name = None"
  by (auto simp: cmd_MegaPose_def)

lemma cmd_OVE6D_complete:
  "None \<in> set (cmd_OVE6D object_type scene_name) \<longleftrightarrow> object_type = None \<or> scene_name = None"
  by (auto simp: cmd_OVE6D_def)

lemma npz_path_000000:
  "os_path_join [''gigaPose_datasets'', ''results'', ''large_'' @ ''000000'', ''predictions'', ''0.npz'']
     = ''gigaPose_datasets/results/large_000000/predictions/0.npz''"
  by (simp add: join2_def)

lemma json_path_eq:
  "os_path_join [''local_data'', ''examples'', ''barbecue-sauce'', ''outputs'', ''object_data.json'']
     = ''local_data/examples/barbecue-sauce/outputs/object_data.json''"
  by (simp add: join2_def)

lemma csv_path_eq:
  "os_path_join [''.'', ''Dataspace'', ''lm'', ''outputs'', ''predictions.csv'']
     = ''./Dataspace/lm/outputs/predictions.csv''"
  by (simp add: join2_def)

subsection \<open>Claim C8: the best hypothesis of the archive\<close>

text \<open>
  Claim C8. When the pipeline has succeeded and the archive is present with a non-empty
  score array and a pose matrix for each score, \<open>estimate_pose\<close> of GigaPose replies
  with the hypothesis \<open>k\<close> whose score is the largest, the lowest such index when
  several scores are the largest: the position is the first three entries of column 3
  of its 4x4 matrix, and the rotation its upper left 3x3 block, row-major. For the
  scores \<open>[0.2, 0.9, 0.5]\<close> the index is 1.
\<close>

theorem estimate_pose_GigaPose_best_hypothesis:
  "(object_type \<noteq> None \<and> scene_name \<noteq> None \<and> returncode w = 0 \<and>
    files w (os_path_join [''gigaPose_datasets'', ''results'', ''large_'' @ image_id,
                           ''predictions'', ''0.npz'']) = Some data \<and>
    scores data \<noteq> [] \<and> length (scores data) \<le> length (poses data)
    \<longrightarrow>
    (\<exists>k. k < length (scores data) \<and>
          (\<forall>j<length (scores data). scores data ! j \<le> scores data ! k) \<and>
          (\<forall>j<k. scores data ! j < scores data ! k) \<and>
          estimate_pose_GigaPose w img_folder image_id object_type scene_name =
            Inr \<lparr>position = [(poses data ! k) 0 3, (poses data ! k) 1 3, (poses data ! k) 2 3],
                 rotation = [(poses data ! k) 0 0, (poses data ! k) 0 1, (poses data ! k) 0 2,
                             (poses data ! k) 1 0, (poses data ! k) 1 1, (poses data ! k) 1 2,
                             (poses data ! k) 2 0, (poses data ! k) 2 1, (poses data ! k) 2 2]\<rparr>))
   \<and> argmax [0.2, 0.9, 0.5] = Inr 1"
proof (intro conjI impI)
  show "argmax [0.2, 0.9, 0.5] = Inr 1" by simp
next
  assume h: "object_type \<noteq> None \<and> scene_name \<noteq> None \<and> returncode w = 0 \<and>
    files w (os_path_join [''gigaPose_datasets'', ''results'', ''large_'' @ image_id,
                           ''predictions'', ''0.npz'']) = Some data \<and>
    scores data \<noteq> [] \<and> length (scores data) \<le> length (poses data)"
  then have run: "subprocess_run_check (cmd_GigaPose img_folder image_id object_type scene_name)
                    (returncode w) = Inr ()"
    by (simp add: subprocess_run_check_def cmd_GigaPose_complete)
  from h obtain k where k: "argmax (scores data) = Inr k" "k < length (scores data)"
      "\<forall>j<length (scores data). scores data ! j \<le> scores data ! k"
      "\<forall>j<k. scores data ! j < scores data ! k"
    using argmax_first_max [of "scores data"] by blast
  from k(2) h have kp: "k < length (poses data)" by simp
  have "estimate_pose_GigaPose w img_folder image_id object_type scene_name =
            Inr \<lparr>position = [(poses data ! k) 0 3, (poses data ! k) 1 3, (poses data ! k) 2 3],
                 rotation = [(poses data ! k) 0 0, (poses data ! k) 0 1, (poses data ! k) 0 2,
                             (poses data ! k) 1 0, (poses data ! k) 1 1, (poses data ! k) 1 2,
                             (poses data ! k) 2 0, (poses data ! k) 2 1, (poses data ! k) 2 2]\<rparr>"
    unfolding estimate_pose_GigaPose_def run Let_def
    using h k(1) kp by (simp add: flatten3_def)
  with k(2,3,4) show "\<exists>k. k < length (scores data) \<and>
          (\<forall>j<length (scores data). scores data ! j \<le> scores data ! k) \<and>
          (\<forall>j<k. scores data ! j < scores data ! k) \<and>
          estimate_pose_GigaPose w img_folder image_id object_type scene_name =
            Inr \<lparr>position = [(poses data ! k) 0 3, (poses data ! k) 1 3, (poses data ! k) 2 3],
                 rotation = [(poses data ! k) 0 0, (poses data ! k) 0 1, (poses data ! k) 0 2,
                             (poses data ! k) 1 0, (poses data ! k) 1 1, (poses data ! k) 1 2,
                             (poses data ! k) 2 0, (poses data ! k) 2 1, (poses data ! k) 2 2]\<rparr>"
    by blast
qed

text \<open>
  An archive of three hypotheses with the scores \<open>[0.2, 0.9, 0.5]\<close>: the reply is the
  pose of hypothesis 1.
\<close>

theorem estimate_pose_GigaPose_best_hypothesis_witness:
  "(Some ''brake'' \<noteq> None \<and> Some ''Default'' \<noteq> None \<and>
    returncode (npz_world 0 (Some example_npz)) = 0 \<and>
    files (npz_world 0 (Some example_npz))
      (os_path_join [''gigaPose_datasets'', ''results'', ''large_'' @ ''000000'',
                     ''predictions'', ''0.npz'']) = Some example_npz \<and>
    scores example_npz \<noteq> [] \<and> length (scores example_npz) \<le> length (poses example_npz)) \<and>
   (\<exists>k. k < length (scores example_npz) \<and>
        (\<forall>j<length (scores example_npz). scores example_npz ! j \<le> scores example_npz ! k) \<and>
        (\<forall>j<k. scores example_npz ! j < scores example_npz ! k) \<and>
        estimate_pose_GigaPose (npz_world 0 (Some example_npz)) ''../SharedData/WebsocketData/000000''
            ''000000'' (Some ''brake'') (Some ''Default'') =
          Inr \<lparr>position = [(poses example_npz ! k) 0 3, (poses example_npz ! k) 1 3,
                           (poses example_npz ! k) 2 3],
               rotation = [(poses example_npz ! k) 0 0, (poses example_npz ! k) 0 1,
                           (poses example_npz ! k) 0 2, (poses example_npz ! k) 1 0,
                           (poses example_npz ! k) 1 1, (poses example_npz ! k) 1 2,
                           (poses example_npz ! k) 2 0, (poses example_npz ! k) 2 1,
                           (poses example_npz ! k) 2 2]\<rparr>) \<and>
   estimate_pose_GigaPose (npz_world 0 (Some example_npz)) ''../SharedData/WebsocketData/000000''
       ''000000'' (Some ''brake'') (Some ''Default'') =
     Inr \<lparr>position = [4, 5, 6], rotation = [0, -1, 0, 1, 0, 0, 0, 0, 1]\<rparr>"
proof -
  have hyp: "Some ''brake'' \<noteq> None \<and> Some ''Default'' \<noteq> None \<and>
    returncode (npz_world 0 (Some example_npz)) = 0 \<and>
    files (npz_world 0 (Some example_npz))
      (os_path_join [''gigaPose_datasets'', ''results'', ''large_'' @ ''000000'',
                     ''predictions'', ''0.npz'']) = Some example_npz \<and>
    scores example_npz \<noteq> [] \<and> length (scores example_npz) \<le> length (poses example_npz)"
    unfolding npz_path_000000 by (simp add: npz_world_def example_npz_def)
  have run: "subprocess_run_check
      (cmd_GigaPose ''../SharedData/WebsocketData/000000'' ''000000'' (Some ''brake'') (Some ''Default''))
      (returncode (npz_world 0 (Some example_npz))) = Inr ()"
    by (simp add: subprocess_run_check_def cmd_GigaPose_complete npz_world_def)
  have direct: "estimate_pose_GigaPose (npz_world 0 (Some example_npz))
       ''../SharedData/WebsocketData/000000'' ''000000'' (Some ''brake'') (Some ''Default'') =
     Inr \<lparr>position = [4, 5, 6], rotation = [0, -1, 0, 1, 0, 0, 0, 0, 1]\<rparr>"
    unfolding estimate_pose_GigaPose_def run npz_path_000000 Let_def
    by (simp add: npz_world_def example_npz_def flatten3_def pose_matrix_def)
  show ?thesis
    using hyp direct
      estimate_pose_GigaPose_best_hypothesis [of "Some ''brake''" "Some ''Default''"
        "npz_world 0 (Some example_npz)" "''000000''" example_npz
        "''../SharedData/WebsocketData/000000''"]
    by blast
qed

subsection \<open>Claim C1: the fallback pose\<close>


lemma run_check_complete:
  assumes "object_type \<noteq> None" "scene_name \<noteq> None"
  shows "subprocess_run_check (cmd_GigaPose img_folder image_id object_type scene_name) rc
           = (if rc \<noteq> 0 then Inl (CalledProcessError rc) else Inr ())"
    and "subprocess_run_check (cmd_MegaPose object_type scene_name) rc
           = (if rc \<noteq> 0 then Inl (CalledProcessError rc) else Inr ())"
    and "subprocess_run_check (cmd_OVE6D object_type scene_name) rc
           = (if rc \<noteq> 0 then Inl (CalledProcessError rc) else Inr ())"
  using assms
  by (auto simp: subprocess_run_check_def cmd_GigaPose_complete cmd_MegaPose_complete
      cmd_OVE6D_complete)

lemma estimate_pose_pipeline_failed:
  assumes "object_type \<noteq> None" "scene_name \<noteq> None"
  shows "returncode wg \<noteq> 0 \<Longrightarrow>
           estimate_pose_GigaPose wg img_folder image_id object_type scene_name = Inr fallback_pose"
    and "returncode wm \<noteq> 0 \<Longrightarrow>
           estimate_pose_MegaPose wm img_folder image_id object_type scene_name = Inr fallback_pose"
    and "returncode wo \<noteq> 0 \<Longrightarrow>
           estimate_pose_OVE6D wo img_folder image_id object_type scene_name = Inr fallback_pose"
  unfolding estimate_pose_GigaPose_def estimate_pose_MegaPose_def estimate_pose_OVE6D_def
    run_check_complete [OF assms] fallback_pose_def
  by simp_all

lemma estimate_pose_MegaPose_document:
  assumes "object_type \<noteq> None" "scene_name \<noteq> None" "returncode w = 0"
    and "files w (os_path_join [''local_data'', ''examples'', ''barbecue-sauce'',
                                ''outputs'', ''object_data.json'']) = Some (Document data)"
  shows "estimate_pose_MegaPose w img_folder image_id object_type scene_name =
           (case find (\<lambda>d. label d = Some ''barbecue-sauce'') data of
              None \<Rightarrow> Inr fallback_pose
            | Some entry \<Rightarrow> unpack_TWO entry)"
  unfolding estimate_pose_MegaPose_def run_check_complete [OF assms(1,2)] fallback_pose_def Let_def
  using assms(3,4) by simp




subsection \<open>Claim C3: the shape of the rotation in the replies of one gateway\<close>

lemma estimate_pose_GigaPose_example:
  "estimate_pose_GigaPose (npz_world 0 (Some example_npz)) ''../SharedData/WebsocketData/000000''
       ''000000'' (Some ''brake'') (Some ''Default'') =
     Inr \<lparr>position = [4, 5, 6], rotation = [0, -1, 0, 1, 0, 0, 0, 0, 1]\<rparr>"
  unfolding estimate_pose_GigaPose_def run_check_complete(1) [of "Some ''brake''" "Some ''Default''", simplified]
    npz_path_000000 Let_def
  by (simp add: npz_world_def example_npz_def flatten3_def pose_matrix_def)

lemma estimate_pose_MegaPose_example:
  "estimate_pose_MegaPose
       (json_world 0 (Some (Document
          [\<lparr>label = Some ''crankcase'', TWO = Some [[0, 0, 0, 1], [1, 2, 3]]\<rparr>,
           \<lparr>label = Some ''barbecue-sauce'', TWO = Some [[0, 0, 0, 1], [4, 5, 6]]\<rparr>])))
       ''../SharedData/WebsocketData/000000'' ''000000'' (Some ''crankcase'') (Some ''Default'') =
     Inr \<lparr>position = [4000, 5000, 6000], rotation = [1, 0, 0, 0, 1, 0, 0, 0, 1]\<rparr>"
  unfolding estimate_pose_MegaPose_def run_check_complete(2) [of "Some ''crankcase''" "Some ''Default''", simplified]
    json_path_eq Let_def
  by (simp add: json_world_def unpack_TWO_def)

lemma floats_of_examples:
  "floats_of ''1 0 0 0 1 0 0 0 1'' = Inr [1, 0, 0, 0, 1, 0, 0, 0, 1]"
  "floats_of ''10 20 30'' = Inr [10, 20, 30]"
proof -
  have s: "str_split ''1 0 0 0 1 0 0 0 1'' = [''1'', ''0'', ''0'', ''0'', ''1'', ''0'', ''0'', ''0'', ''1'']"
    "str_split ''10 20 30'' = [''10'', ''20'', ''30'']"
    by code_simp+
  have f: "py_float ''1'' = Some 1" "py_float ''0'' = Some 0" "py_float ''10'' = Some 10"
    "py_float ''20'' = Some 20" "py_float ''30'' = Some 30"
    by (simp_all add: py_float_def split_at_def is_digit_def digits_value_def)
  show "floats_of ''1 0 0 0 1 0 0 0 1'' = Inr [1, 0, 0, 0, 1, 0, 0, 0, 1]"
    "floats_of ''10 20 30'' = Inr [10, 20, 30]"
    unfolding floats_of_def s by (simp_all add: f)
qed

lemma estimate_pose_OVE6D_example:
  "estimate_pose_OVE6D
       (csv_world 0 (Some [[''R'' \<mapsto> ''1 0 0 0 1 0 0 0 1'', ''t'' \<mapsto> ''10 20 30'']]))
       ''../SharedData/WebsocketData/000000'' ''000000'' (Some ''brake'') (Some ''Default'') =
     Inr \<lparr>position = [10, 20, 30], rotation = [1, 0, 0, 0, 1, 0, 0, 0, 1]\<rparr>"
  unfolding estimate_pose_OVE6D_def run_check_complete(3) [of "Some ''brake''" "Some ''Default''", simplified]
    csv_path_eq Let_def
  by (simp add: csv_world_def floats_of_examples)

lemma estimate_pose_OVE6D_missing:
  "estimate_pose_OVE6D (csv_world 0 None)
       ''../SharedData/WebsocketData/000000'' ''000000'' (Some ''brake'') (Some ''Default'') =
     Inr \<lparr>position = [0, 0, 0], rotation = [0, 0, 0, 0, 0, 0, 0, 0, 0]\<rparr>"
  unfolding estimate_pose_OVE6D_def run_check_complete(3) [of "Some ''brake''" "Some ''Default''", simplified]
    csv_path_eq Let_def
  by (simp add: csv_world_def)

text \<open>
  Claim C3 on the code. Each gateway is run on one connection: a session whose pipeline
  fails, then a session whose pipeline succeeds. The rotation of the first reply has 4
  numbers and the rotation of the second has 9. At the OVE6D gateway the fallback
  replies themselves differ: 4 numbers after a failed pipeline or an empty CSV, 9
  numbers (all zero) when the CSV is missing.
\<close>

theorem handler_rotation_shape_varies:
  "map (\<lambda>p. length (rotation p))
     (handler_GigaPose
        [\<lparr>objectType = Some ''brake'', sceneName = Some ''Default'', outcome = npz_world 1 None\<rparr>,
         \<lparr>objectType = Some ''brake'', sceneName = Some ''Default'',
          outcome = npz_world 0 (Some example_npz)\<rparr>]) = [4, 9] \<and>
   map (\<lambda>p. length (rotation p))
     (handler_MegaPose
        [\<lparr>objectType = Some ''crankcase'', sceneName = Some ''Default'', outcome = json_world 1 None\<rparr>,
         \<lparr>objectType = Some ''crankcase'', sceneName = Some ''Default'',
          outcome = json_world 0 (Some (Document
            [\<lparr>label = Some ''crankcase'', TWO = Some [[0, 0, 0, 1], [1, 2, 3]]\<rparr>,
             \<lparr>label = Some ''barbecue-sauce'', TWO = Some [[0, 0, 0, 1], [4, 5, 6]]\<rparr>]))\<rparr>])
     = [4, 9] \<and>
   map (\<lambda>p. length (rotation p))
     (handler_OVE6D
        [\<lparr>objectType = Some ''brake'', sceneName = Some ''Default'', outcome = csv_world 1 None\<rparr>,
         \<lparr>objectType = Some ''brake'', sceneName = Some ''Default'', outcome = csv_world 0 None\<rparr>,
         \<lparr>objectType = Some ''brake'', sceneName = Some ''Default'', outcome = csv_world 0 (Some [])\<rparr>,
         \<lparr>objectType = Some ''brake'', sceneName = Some ''Default'',
          outcome = csv_world 0 (Some [[''R'' \<mapsto> ''1 0 0 0 1 0 0 0 1'', ''t'' \<mapsto> ''10 20 30'']])\<rparr>])
     = [4, 9, 4, 9]"
proof -
  have c: "Some ''brake'' \<noteq> None" "Some ''crankcase'' \<noteq> None" "Some ''Default'' \<noteq> None"
    by simp_all
  have g1: "estimate_pose_GigaPose (npz_world 1 None) ''../SharedData/WebsocketData/000000''
       ''000000'' (Some ''brake'') (Some ''Default'') = Inr fallback_pose"
    by (rule estimate_pose_pipeline_failed(1) [OF c(1) c(3)]) (simp add: npz_world_def)
  have m1: "estimate_pose_MegaPose (json_world 1 None) ''../SharedData/WebsocketData/000000''
       ''000000'' (Some ''crankcase'') (Some ''Default'') = Inr fallback_pose"
    by (rule estimate_pose_pipeline_failed(2) [OF c(2) c(3)]) (simp add: json_world_def)
  have o1: "estimate_pose_OVE6D (csv_world 1 None) ''../SharedData/WebsocketData/000000''
       ''000000'' (Some ''brake'') (Some ''Default'') = Inr fallback_pose"
    by (rule estimate_pose_pipeline_failed(3) [OF c(1) c(3)]) (simp add: csv_world_def)
  have o3: "estimate_pose_OVE6D (csv_world 0 (Some [])) ''../SharedData/WebsocketData/000000''
       ''000000'' (Some ''brake'') (Some ''Default'') = Inr fallback_pose"
    unfolding estimate_pose_OVE6D_def run_check_complete(3) [OF c(1) c(3)] csv_path_eq Let_def
    by (simp add: csv_world_def fallback_pose_def)
  have G: "map (\<lambda>p. length (rotation p))
     (handler_GigaPose
        [\<lparr>objectType = Some ''brake'', sceneName = Some ''Default'', outcome = npz_world 1 None\<rparr>,
         \<lparr>objectType = Some ''brake'', sceneName = Some ''Default'',
          outcome = npz_world 0 (Some example_npz)\<rparr>]) = [4, 9]"
    by (simp add: EXPORT_ROOT_def img_id_def join2_def g1 estimate_pose_GigaPose_example
        fallback_pose_def)
  have M: "map (\<lambda>p. length (rotation p))
     (handler_MegaPose
        [\<lparr>objectType = Some ''crankcase'', sceneName = Some ''Default'', outcome = json_world 1 None\<rparr>,
         \<lparr>objectType = Some ''crankcase'', sceneName = Some ''Default'',
          outcome = json_world 0 (Some (Document
            [\<lparr>label = Some ''crankcase'', TWO = Some [[0, 0, 0, 1], [1, 2, 3]]\<rparr>,
             \<lparr>label = Some ''barbecue-sauce'', TWO = Some [[0, 0, 0, 1], [4, 5, 6]]\<rparr>]))\<rparr>])
     = [4, 9]"
    by (simp add: EXPORT_ROOT_def img_id_def join2_def m1 estimate_pose_MegaPose_example
        fallback_pose_def)
  have O: "map (\<lambda>p. length (rotation p))
     (handler_OVE6D
        [\<lparr>objectType = Some ''brake'', sceneName = Some ''Default'', outcome = csv_world 1 None\<rparr>,
         \<lparr>objectType = Some ''brake'', sceneName = Some ''Default'', outcome = csv_world 0 None\<rparr>,
         \<lparr>objectType = Some ''brake'', sceneName = Some ''Default'', outcome = csv_world 0 (Some [])\<rparr>,
         \<lparr>objectType = Some ''brake'', sceneName = Some ''Default'',
          outcome = csv_world 0 (Some [[''R'' \<mapsto> ''1 0 0 0 1 0 0 0 1'', ''t'' \<mapsto> ''10 20 30'']])\<rparr>])
     = [4, 9, 4, 9]"
    by (simp add: EXPORT_ROOT_def img_id_def join2_def o1 o3 estimate_pose_OVE6D_missing
        estimate_pose_OVE6D_example fallback_pose_def)
  show ?thesis using G M O by blast
qed

subsection \<open>Claim C4: the record selected from the JSON list\<close>

text \<open>
  Claim C4 as the specification states it: the record selected is the one whose label
  is the requested object type, and no record with another label is returned. The code
  compares the label with the fixed text \<open>barbecue-sauce\<close> and never reads
  \<open>object_type\<close> after the pipeline has run. A session that requests \<open>crankcase\<close>, with
  a record labelled \<open>crankcase\<close> in the list, is answered with the pose of the record
  labelled \<open>barbecue-sauce\<close>; and with the fallback pose when the \<open>crankcase\<close> record
  is the only one.
\<close>

theorem estimate_pose_MegaPose_ignores_object_type:
  "estimate_pose_MegaPose
       (json_world 0 (Some (Document
          [\<lparr>label = Some ''crankcase'', TWO = Some [[0, 0, 0, 1], [1, 2, 3]]\<rparr>,
           \<lparr>label = Some ''barbecue-sauce'', TWO = Some [[0, 0, 0, 1], [4, 5, 6]]\<rparr>])))
       ''../SharedData/WebsocketData/000000'' ''000000'' (Some ''crankcase'') (Some ''Default'') =
     Inr \<lparr>position = [4000, 5000, 6000], rotation = [1, 0, 0, 0, 1, 0, 0, 0, 1]\<rparr> \<and>
   estimate_pose_MegaPose
       (json_world 0 (Some (Document
          [\<lparr>label = Some ''crankcase'', TWO = Some [[0, 0, 0, 1], [1, 2, 3]]\<rparr>])))
       ''../SharedData/WebsocketData/000000'' ''000000'' (Some ''crankcase'') (Some ''Default'') =
     Inr \<lparr>position = [0, 0, 0], rotation = [0, 0, 0, 1]\<rparr>"
proof -
  have "estimate_pose_MegaPose
       (json_world 0 (Some (Document
          [\<lparr>label = Some ''crankcase'', TWO = Some [[0, 0, 0, 1], [1, 2, 3]]\<rparr>])))
       ''../SharedData/WebsocketData/000000'' ''000000'' (Some ''crankcase'') (Some ''Default'') =
     Inr \<lparr>position = [0, 0, 0], rotation = [0, 0, 0, 1]\<rparr>"
    unfolding estimate_pose_MegaPose_def
      run_check_complete(2) [of "Some ''crankcase''" "Some ''Default''", simplified]
      json_path_eq Let_def
    by (simp add: json_world_def)
  with estimate_pose_MegaPose_example show ?thesis by blast
qed

text \<open>
  Claim C4, amended. When the pipeline has succeeded and \<open>object_data.json\<close> holds a
  list of entries, \<open>estimate_pose\<close> of MegaPose selects the first entry whose label
  is \<open>barbecue-sauce\<close>, whatever object type the session requests, and unpacks its
  \<open>TWO\<close> field; when no entry has that label the reply is the fallback pose. A reply
  other than the fallback pose is always drawn from an entry labelled
  \<open>barbecue-sauce\<close>.
\<close>

theorem estimate_pose_MegaPose_fixed_label:
  "object_type \<noteq> None \<and> scene_name \<noteq> None \<and> returncode w = 0 \<and>
   files w (os_path_join [''local_data'', ''examples'', ''barbecue-sauce'',
                          ''outputs'', ''object_data.json'']) = Some (Document data)
   \<longrightarrow>
   ((\<forall>d\<in>set data. label d \<noteq> Some ''barbecue-sauce'') \<longrightarrow>
       estimate_pose_MegaPose w img_folder image_id object_type scene_name = Inr fallback_pose) \<and>
   (\<forall>i<length data.
       label (data ! i) = Some ''barbecue-sauce'' \<and>
       (\<forall>j<i. label (data ! j) \<noteq> Some ''barbecue-sauce'') \<longrightarrow>
       estimate_pose_MegaPose w img_folder image_id object_type scene_name = unpack_TWO (data ! i)) \<and>
   (\<forall>p. estimate_pose_MegaPose w img_folder image_id object_type scene_name = Inr p \<and>
        p \<noteq> fallback_pose \<longrightarrow>
        (\<exists>d\<in>set data. label d = Some ''barbecue-sauce'' \<and> unpack_TWO d = Inr p)) \<and>
   (\<forall>other. other \<noteq> None \<longrightarrow>
        estimate_pose_MegaPose w img_folder image_id other scene_name =
        estimate_pose_MegaPose w img_folder image_id object_type scene_name)"
proof (intro impI)
  assume h: "object_type \<noteq> None \<and> scene_name \<noteq> None \<and> returncode w = 0 \<and>
   files w (os_path_join [''local_data'', ''examples'', ''barbecue-sauce'',
                          ''outputs'', ''object_data.json'']) = Some (Document data)"
  then have c: "object_type \<noteq> None" "scene_name \<noteq> None" and rc: "returncode w = 0"
    and fl: "files w (os_path_join [''local_data'', ''examples'', ''barbecue-sauce'',
                          ''outputs'', ''object_data.json'']) = Some (Document data)"
    by simp_all
  have doc: "\<And>ot. ot \<noteq> None \<Longrightarrow>
      estimate_pose_MegaPose w img_folder image_id ot scene_name =
           (case find (\<lambda>d. label d = Some ''barbecue-sauce'') data of
              None \<Rightarrow> Inr fallback_pose
            | Some entry \<Rightarrow> unpack_TWO entry)"
    using estimate_pose_MegaPose_document [OF _ c(2) rc fl] by blast
  have 1: "(\<forall>d\<in>set data. label d \<noteq> Some ''barbecue-sauce'') \<longrightarrow>
       estimate_pose_MegaPose w img_folder image_id object_type scene_name = Inr fallback_pose"
  proof
    assume "\<forall>d\<in>set data. label d \<noteq> Some ''barbecue-sauce''"
    then have "find (\<lambda>d. label d = Some ''barbecue-sauce'') data = None"
      by (simp add: find_None_iff)
    then show "estimate_pose_MegaPose w img_folder image_id object_type scene_name = Inr fallback_pose"
      unfolding doc [OF c(1)] by simp
  qed
  have 2: "\<forall>i<length data.
       label (data ! i) = Some ''barbecue-sauce'' \<and>
       (\<forall>j<i. label (data ! j) \<noteq> Some ''barbecue-sauce'') \<longrightarrow>
       estimate_pose_MegaPose w img_folder image_id object_type scene_name = unpack_TWO (data ! i)"
  proof (intro allI impI)
    fix i assume i: "i < length data"
      and "label (data ! i) = Some ''barbecue-sauce'' \<and>
           (\<forall>j<i. label (data ! j) \<noteq> Some ''barbecue-sauce'')"
    then have "find (\<lambda>d. label d = Some ''barbecue-sauce'') data = Some (data ! i)"
      unfolding find_Some_iff by blast
    then show "estimate_pose_MegaPose w img_folder image_id object_type scene_name
                 = unpack_TWO (data ! i)"
      unfolding doc [OF c(1)] by simp
  qed
  have 3: "\<forall>p. estimate_pose_MegaPose w img_folder image_id object_type scene_name = Inr p \<and>
        p \<noteq> fallback_pose \<longrightarrow>
        (\<exists>d\<in>set data. label d = Some ''barbecue-sauce'' \<and> unpack_TWO d = Inr p)"
  proof (intro allI impI)
    fix p
    assume p: "estimate_pose_MegaPose w img_folder image_id object_type scene_name = Inr p \<and>
        p \<noteq> fallback_pose"
    show "\<exists>d\<in>set data. label d = Some ''barbecue-sauce'' \<and> unpack_TWO d = Inr p"
    proof (cases "find (\<lambda>d. label d = Some ''barbecue-sauce'') data")
      case None
      with p show ?thesis unfolding doc [OF c(1)] by auto
    next
      case (Some d)
      then have "d \<in> set data" "label d = Some ''barbecue-sauce''"
        unfolding find_Some_iff by auto
      moreover from p Some have "unpack_TWO d = Inr p" unfolding doc [OF c(1)] by simp
      ultimately show ?thesis by blast
    qed
  qed
  have 4: "\<forall>other. other \<noteq> None \<longrightarrow>
        estimate_pose_MegaPose w img_folder image_id other scene_name =
        estimate_pose_MegaPose w img_folder image_id object_type scene_name"
    using doc c(1) by simp
  from 1 2 3 4 show "((\<forall>d\<in>set data. label d \<noteq> Some ''barbecue-sauce'') \<longrightarrow>
       estimate_pose_MegaPose w img_folder image_id object_type scene_name = Inr fallback_pose) \<and>
   (\<forall>i<length data.
       label (data ! i) = Some ''barbecue-sauce'' \<and>
       (\<forall>j<i. label (data ! j) \<noteq> Some ''barbecue-sauce'') \<longrightarrow>
       estimate_pose_MegaPose w img_folder image_id object_type scene_name = unpack_TWO (data ! i)) \<and>
   (\<forall>p. estimate_pose_MegaPose w img_folder image_id object_type scene_name = Inr p \<and>
        p \<noteq> fallback_pose \<longrightarrow>
        (\<exists>d\<in>set data. label d = Some ''barbecue-sauce'' \<and> unpack_TWO d = Inr p)) \<and>
   (\<forall>other. other \<noteq> None \<longrightarrow>
        estimate_pose_MegaPose w img_folder image_id other scene_name =
        estimate_pose_MegaPose w img_folder image_id object_type scene_name)"
    by blast
qed

text \<open>
  A list with a \<open>crankcase\<close> record and a \<open>barbecue-sauce\<close> record, requested as
  \<open>crankcase\<close>: the second record is unpacked, and a request for \<open>brake\<close> gets the
  same reply. A list with the \<open>crankcase\<close> record alone: the fallback pose.
\<close>

theorem estimate_pose_MegaPose_fixed_label_witness:
  "(Some ''crankcase'' \<noteq> None \<and> Some ''Default'' \<noteq> None \<and> returncode (json_world 0 (Some (Document [\<lparr>label = Some ''crankcase'', TWO = Some [[0, 0, 0, 1], [1, 2, 3]]\<rparr>, \<lparr>label = Some ''barbecue-sauce'', TWO = Some [[0, 0, 0, 1], [4, 5, 6]]\<rparr>]))) = 0 \<and> files (json_world 0 (Some (Document [\<lparr>label = Some ''crankcase'', TWO = Some [[0, 0, 0, 1], [1, 2, 3]]\<rparr>, \<lparr>label = Some ''barbecue-sauce'', TWO = Some [[0, 0, 0, 1], [4, 5, 6]]\<rparr>]))) (os_path_join [''local_data'', ''examples'', ''barbecue-sauce'', ''outputs'', ''object_data.json'']) = Some (Document [\<lparr>label = Some ''crankcase'', TWO = Some [[0, 0, 0, 1], [1, 2, 3]]\<rparr>, \<lparr>label = Some ''barbecue-sauce'', TWO = Some [[0, 0, 0, 1], [4, 5, 6]]\<rparr>])) \<and>
   (1 < length [\<lparr>label = Some ''crankcase'', TWO = Some [[0, 0, 0, 1], [1, 2, 3]]\<rparr>, \<lparr>label = Some ''barbecue-sauce'', TWO = Some [[0, 0, 0, 1], [4, 5, 6]]\<rparr>] \<and> label ([\<lparr>label = Some ''crankcase'', TWO = Some [[0, 0, 0, 1], [1, 2, 3]]\<rparr>, \<lparr>label = Some ''barbecue-sauce'', TWO = Some [[0, 0, 0, 1], [4, 5, 6]]\<rparr>] ! 1) = Some ''barbecue-sauce'' \<and> label ([\<lparr>label = Some ''crankcase'', TWO = Some [[0, 0, 0, 1], [1, 2, 3]]\<rparr>, \<lparr>label = Some ''barbecue-sauce'', TWO = Some [[0, 0, 0, 1], [4, 5, 6]]\<rparr>] ! 0) \<noteq> Some ''barbecue-sauce'') \<and>
   estimate_pose_MegaPose (json_world 0 (Some (Document [\<lparr>label = Some ''crankcase'', TWO = Some [[0, 0, 0, 1], [1, 2, 3]]\<rparr>, \<lparr>label = Some ''barbecue-sauce'', TWO = Some [[0, 0, 0, 1], [4, 5, 6]]\<rparr>]))) ''../SharedData/WebsocketData/000000'' ''000000'' (Some ''crankcase'') (Some ''Default'') = unpack_TWO ([\<lparr>label = Some ''crankcase'', TWO = Some [[0, 0, 0, 1], [1, 2, 3]]\<rparr>, \<lparr>label = Some ''barbecue-sauce'', TWO = Some [[0, 0, 0, 1], [4, 5, 6]]\<rparr>] ! 1) \<and>
   unpack_TWO ([\<lparr>label = Some ''crankcase'', TWO = Some [[0, 0, 0, 1], [1, 2, 3]]\<rparr>, \<lparr>label = Some ''barbecue-sauce'', TWO = Some [[0, 0, 0, 1], [4, 5, 6]]\<rparr>] ! 1) = Inr \<lparr>position = [4000, 5000, 6000], rotation = [1, 0, 0, 0, 1, 0, 0, 0, 1]\<rparr> \<and>
   estimate_pose_MegaPose (json_world 0 (Some (Document [\<lparr>label = Some ''crankcase'', TWO = Some [[0, 0, 0, 1], [1, 2, 3]]\<rparr>, \<lparr>label = Some ''barbecue-sauce'', TWO = Some [[0, 0, 0, 1], [4, 5, 6]]\<rparr>]))) ''../SharedData/WebsocketData/000000'' ''000000'' (Some ''brake'') (Some ''Default'') = estimate_pose_MegaPose (json_world 0 (Some (Document [\<lparr>label = Some ''crankcase'', TWO = Some [[0, 0, 0, 1], [1, 2, 3]]\<rparr>, \<lparr>label = Some ''barbecue-sauce'', TWO = Some [[0, 0, 0, 1], [4, 5, 6]]\<rparr>]))) ''../SharedData/WebsocketData/000000'' ''000000'' (Some ''crankcase'') (Some ''Default'') \<and>
   (Some ''crankcase'' \<noteq> None \<and> Some ''Default'' \<noteq> None \<and> returncode (json_world 0 (Some (Document [\<lparr>label = Some ''crankcase'', TWO = Some [[0, 0, 0, 1], [1, 2, 3]]\<rparr>]))) = 0 \<and> files (json_world 0 (Some (Document [\<lparr>label = Some ''crankcase'', TWO = Some [[0, 0, 0, 1], [1, 2, 3]]\<rparr>]))) (os_path_join [''local_data'', ''examples'', ''barbecue-sauce'', ''outputs'', ''object_data.json'']) = Some (Document [\<lparr>label = Some ''crankcase'', TWO = Some [[0, 0, 0, 1], [1, 2, 3]]\<rparr>])) \<and>
   find (\<lambda>d. label d = Some ''barbecue-sauce'') [\<lparr>label = Some ''crankcase'', TWO = Some [[0, 0, 0, 1], [1, 2, 3]]\<rparr>] = None \<and>
   estimate_pose_MegaPose (json_world 0 (Some (Document [\<lparr>label = Some ''crankcase'', TWO = Some [[0, 0, 0, 1], [1, 2, 3]]\<rparr>]))) ''../SharedData/WebsocketData/000000'' ''000000'' (Some ''crankcase'') (Some ''Default'') = Inr fallback_pose"
proof -
  have h1: "Some ''crankcase'' \<noteq> None \<and> Some ''Default'' \<noteq> None \<and> returncode (json_world 0 (Some (Document [\<lparr>label = Some ''crankcase'', TWO = Some [[0, 0, 0, 1], [1, 2, 3]]\<rparr>, \<lparr>label = Some ''barbecue-sauce'', TWO = Some [[0, 0, 0, 1], [4, 5, 6]]\<rparr>]))) = 0 \<and> files (json_world 0 (Some (Document [\<lparr>label = Some ''crankcase'', TWO = Some [[0, 0, 0, 1], [1, 2, 3]]\<rparr>, \<lparr>label = Some ''barbecue-sauce'', TWO = Some [[0, 0, 0, 1], [4, 5, 6]]\<rparr>]))) (os_path_join [''local_data'', ''examples'', ''barbecue-sauce'', ''outputs'', ''object_data.json'']) = Some (Document [\<lparr>label = Some ''crankcase'', TWO = Some [[0, 0, 0, 1], [1, 2, 3]]\<rparr>, \<lparr>label = Some ''barbecue-sauce'', TWO = Some [[0, 0, 0, 1], [4, 5, 6]]\<rparr>])"
    unfolding json_path_eq by (simp add: json_world_def)
  have h2: "Some ''crankcase'' \<noteq> None \<and> Some ''Default'' \<noteq> None \<and> returncode (json_world 0 (Some (Document [\<lparr>label = Some ''crankcase'', TWO = Some [[0, 0, 0, 1], [1, 2, 3]]\<rparr>]))) = 0 \<and> files (json_world 0 (Some (Document [\<lparr>label = Some ''crankcase'', TWO = Some [[0, 0, 0, 1], [1, 2, 3]]\<rparr>]))) (os_path_join [''local_data'', ''examples'', ''barbecue-sauce'', ''outputs'', ''object_data.json'']) = Some (Document [\<lparr>label = Some ''crankcase'', TWO = Some [[0, 0, 0, 1], [1, 2, 3]]\<rparr>])"
    unfolding json_path_eq by (simp add: json_world_def)
  have sw: "1 < length [\<lparr>label = Some ''crankcase'', TWO = Some [[0, 0, 0, 1], [1, 2, 3]]\<rparr>, \<lparr>label = Some ''barbecue-sauce'', TWO = Some [[0, 0, 0, 1], [4, 5, 6]]\<rparr>] \<and> label ([\<lparr>label = Some ''crankcase'', TWO = Some [[0, 0, 0, 1], [1, 2, 3]]\<rparr>, \<lparr>label = Some ''barbecue-sauce'', TWO = Some [[0, 0, 0, 1], [4, 5, 6]]\<rparr>] ! 1) = Some ''barbecue-sauce'' \<and> label ([\<lparr>label = Some ''crankcase'', TWO = Some [[0, 0, 0, 1], [1, 2, 3]]\<rparr>, \<lparr>label = Some ''barbecue-sauce'', TWO = Some [[0, 0, 0, 1], [4, 5, 6]]\<rparr>] ! 0) \<noteq> Some ''barbecue-sauce''"
    by simp
  have s: "1 < length [\<lparr>label = Some ''crankcase'', TWO = Some [[0, 0, 0, 1], [1, 2, 3]]\<rparr>, \<lparr>label = Some ''barbecue-sauce'', TWO = Some [[0, 0, 0, 1], [4, 5, 6]]\<rparr>] \<and> label ([\<lparr>label = Some ''crankcase'', TWO = Some [[0, 0, 0, 1], [1, 2, 3]]\<rparr>, \<lparr>label = Some ''barbecue-sauce'', TWO = Some [[0, 0, 0, 1], [4, 5, 6]]\<rparr>] ! 1) = Some ''barbecue-sauce'' \<and> (\<forall>j<1. label ([\<lparr>label = Some ''crankcase'', TWO = Some [[0, 0, 0, 1], [1, 2, 3]]\<rparr>, \<lparr>label = Some ''barbecue-sauce'', TWO = Some [[0, 0, 0, 1], [4, 5, 6]]\<rparr>] ! j) \<noteq> Some ''barbecue-sauce'')"
    by simp
  have nw: "find (\<lambda>d. label d = Some ''barbecue-sauce'') [\<lparr>label = Some ''crankcase'', TWO = Some [[0, 0, 0, 1], [1, 2, 3]]\<rparr>] = None"
    by simp
  have n: "(\<forall>d\<in>set [\<lparr>label = Some ''crankcase'', TWO = Some [[0, 0, 0, 1], [1, 2, 3]]\<rparr>]. label d \<noteq> Some ''barbecue-sauce'')"
    by simp
  have u: "unpack_TWO ([\<lparr>label = Some ''crankcase'', TWO = Some [[0, 0, 0, 1], [1, 2, 3]]\<rparr>, \<lparr>label = Some ''barbecue-sauce'', TWO = Some [[0, 0, 0, 1], [4, 5, 6]]\<rparr>] ! 1) = Inr \<lparr>position = [4000, 5000, 6000], rotation = [1, 0, 0, 0, 1, 0, 0, 0, 1]\<rparr>"
    by (simp add: unpack_TWO_def)
  note A = estimate_pose_MegaPose_fixed_label [where object_type = "Some ''crankcase''" and scene_name = "Some ''Default''"
        and w = "json_world 0 (Some (Document [\<lparr>label = Some ''crankcase'', TWO = Some [[0, 0, 0, 1], [1, 2, 3]]\<rparr>, \<lparr>label = Some ''barbecue-sauce'', TWO = Some [[0, 0, 0, 1], [4, 5, 6]]\<rparr>]))" and data = "[\<lparr>label = Some ''crankcase'', TWO = Some [[0, 0, 0, 1], [1, 2, 3]]\<rparr>, \<lparr>label = Some ''barbecue-sauce'', TWO = Some [[0, 0, 0, 1], [4, 5, 6]]\<rparr>]"
        and img_folder = "''../SharedData/WebsocketData/000000''" and image_id = "''000000''"]
  note B = estimate_pose_MegaPose_fixed_label [where object_type = "Some ''crankcase''" and scene_name = "Some ''Default''"
        and w = "json_world 0 (Some (Document [\<lparr>label = Some ''crankcase'', TWO = Some [[0, 0, 0, 1], [1, 2, 3]]\<rparr>]))" and data = "[\<lparr>label = Some ''crankcase'', TWO = Some [[0, 0, 0, 1], [1, 2, 3]]\<rparr>]"
        and img_folder = "''../SharedData/WebsocketData/000000''" and image_id = "''000000''"]
  from A h1 have A2: "\<forall>i<length [\<lparr>label = Some ''crankcase'', TWO = Some [[0, 0, 0, 1], [1, 2, 3]]\<rparr>, \<lparr>label = Some ''barbecue-sauce'', TWO = Some [[0, 0, 0, 1], [4, 5, 6]]\<rparr>].
       label ([\<lparr>label = Some ''crankcase'', TWO = Some [[0, 0, 0, 1], [1, 2, 3]]\<rparr>, \<lparr>label = Some ''barbecue-sauce'', TWO = Some [[0, 0, 0, 1], [4, 5, 6]]\<rparr>] ! i) = Some ''barbecue-sauce'' \<and>
       (\<forall>j<i. label ([\<lparr>label = Some ''crankcase'', TWO = Some [[0, 0, 0, 1], [1, 2, 3]]\<rparr>, \<lparr>label = Some ''barbecue-sauce'', TWO = Some [[0, 0, 0, 1], [4, 5, 6]]\<rparr>] ! j) \<noteq> Some ''barbecue-sauce'') \<longrightarrow>
       estimate_pose_MegaPose (json_world 0 (Some (Document [\<lparr>label = Some ''crankcase'', TWO = Some [[0, 0, 0, 1], [1, 2, 3]]\<rparr>, \<lparr>label = Some ''barbecue-sauce'', TWO = Some [[0, 0, 0, 1], [4, 5, 6]]\<rparr>]))) ''../SharedData/WebsocketData/000000'' ''000000'' (Some ''crankcase'') (Some ''Default'') = unpack_TWO ([\<lparr>label = Some ''crankcase'', TWO = Some [[0, 0, 0, 1], [1, 2, 3]]\<rparr>, \<lparr>label = Some ''barbecue-sauce'', TWO = Some [[0, 0, 0, 1], [4, 5, 6]]\<rparr>] ! i)"
    by blast
  from A2 s have c1: "estimate_pose_MegaPose (json_world 0 (Some (Document [\<lparr>label = Some ''crankcase'', TWO = Some [[0, 0, 0, 1], [1, 2, 3]]\<rparr>, \<lparr>label = Some ''barbecue-sauce'', TWO = Some [[0, 0, 0, 1], [4, 5, 6]]\<rparr>]))) ''../SharedData/WebsocketData/000000'' ''000000'' (Some ''crankcase'') (Some ''Default'') = unpack_TWO ([\<lparr>label = Some ''crankcase'', TWO = Some [[0, 0, 0, 1], [1, 2, 3]]\<rparr>, \<lparr>label = Some ''barbecue-sauce'', TWO = Some [[0, 0, 0, 1], [4, 5, 6]]\<rparr>] ! 1)"
    by blast
  from A h1 have A4: "\<forall>other. other \<noteq> None \<longrightarrow> estimate_pose_MegaPose (json_world 0 (Some (Document [\<lparr>label = Some ''crankcase'', TWO = Some [[0, 0, 0, 1], [1, 2, 3]]\<rparr>, \<lparr>label = Some ''barbecue-sauce'', TWO = Some [[0, 0, 0, 1], [4, 5, 6]]\<rparr>]))) ''../SharedData/WebsocketData/000000'' ''000000'' other (Some ''Default'') = estimate_pose_MegaPose (json_world 0 (Some (Document [\<lparr>label = Some ''crankcase'', TWO = Some [[0, 0, 0, 1], [1, 2, 3]]\<rparr>, \<lparr>label = Some ''barbecue-sauce'', TWO = Some [[0, 0, 0, 1], [4, 5, 6]]\<rparr>]))) ''../SharedData/WebsocketData/000000'' ''000000'' (Some ''crankcase'') (Some ''Default'')"
    by blast
  then have c2: "estimate_pose_MegaPose (json_world 0 (Some (Document [\<lparr>label = Some ''crankcase'', TWO = Some [[0, 0, 0, 1], [1, 2, 3]]\<rparr>, \<lparr>label = Some ''barbecue-sauce'', TWO = Some [[0, 0, 0, 1], [4, 5, 6]]\<rparr>]))) ''../SharedData/WebsocketData/000000'' ''000000'' (Some ''brake'') (Some ''Default'') = estimate_pose_MegaPose (json_world 0 (Some (Document [\<lparr>label = Some ''crankcase'', TWO = Some [[0, 0, 0, 1], [1, 2, 3]]\<rparr>, \<lparr>label = Some ''barbecue-sauce'', TWO = Some [[0, 0, 0, 1], [4, 5, 6]]\<rparr>]))) ''../SharedData/WebsocketData/000000'' ''000000'' (Some ''crankcase'') (Some ''Default'')"
    by blast
  from B h2 n have c3: "estimate_pose_MegaPose (json_world 0 (Some (Document [\<lparr>label = Some ''crankcase'', TWO = Some [[0, 0, 0, 1], [1, 2, 3]]\<rparr>]))) ''../SharedData/WebsocketData/000000'' ''000000'' (Some ''crankcase'') (Some ''Default'') = Inr fallback_pose"
    by blast
  show ?thesis using h1 h2 sw nw u c1 c2 c3 by blast
qed

section \<open>Verification of the stage runner\<close>

lemma run_stages_append:
  "run_stages r (pre @ post) l =
     (case run_stages r pre l of Inl x \<Rightarrow> Inl x | Inr l' \<Rightarrow> run_stages r post l')"
  by (induction pre arbitrary: l) (auto split: sum.splits)

lemma run_invoked:
  "run sh st l = Inr l' \<Longrightarrow> invoked l' = invoked l @ [st] \<and> stderr l' = stderr l"
  "run_FoundationPose sh st l = Inr l' \<Longrightarrow> invoked l' = invoked l @ [st] \<and> stderr l' = stderr l"
  by (auto simp: run_def run_FoundationPose_def Let_def split: if_splits)

lemma run_stages_invoked:
  assumes "\<And>st l l'. r st l = Inr l' \<Longrightarrow> invoked l' = invoked l @ [st] \<and> stderr l' = stderr l"
  shows "run_stages r sts l = Inr l' \<Longrightarrow> invoked l' = invoked l @ sts \<and> stderr l' = stderr l"
proof (induction sts arbitrary: l)
  case Nil
  then show ?case by simp
next
  case (Cons st sts)
  from Cons.prems obtain l1 where l1: "r st l = Inr l1" "run_stages r sts l1 = Inr l'"
    by (auto split: sum.splits)
  from assms [OF l1(1)] Cons.IH [OF l1(2)] show ?case by simp
qed

text \<open>
  Claim C5. Take a script whose stages are \<open>pre\<close>, then \<open>st\<close>, then \<open>post\<close>, and
  suppose that the stages of \<open>pre\<close> all return and that the command of \<open>st\<close> exits
  with a non-zero status. Then the script ends by \<open>sys.exit\<close> with that status as its
  code; the line written to standard error names the command of \<open>st\<close>; and the
  commands invoked are those of \<open>pre\<close> and \<open>st\<close> and no other, whatever \<open>post\<close> is:
  no later stage is invoked. When the status lies between 1 and 255 it is the exit
  status of the script. This holds for \<open>run\<close> of GigaPose and of FoundationPose.
\<close>

theorem run_stages_abort_on_failure:
  "(run_stages (run sh) pre l = Inr l1 \<and> sh (invoked l1) st \<noteq> 0 \<longrightarrow>
      run_stages (run sh) (pre @ st # post) l =
        Inl (sh (invoked l1) st,
             \<lparr>invoked = invoked l @ pre @ [st],
              stderr = stderr l @ [''Step failed: '' @ join_words (fst st)]\<rparr>)) \<and>
   (run_stages (run_FoundationPose sh) pre l = Inr l1 \<and> sh (invoked l1) st \<noteq> 0 \<longrightarrow>
      run_stages (run_FoundationPose sh) (pre @ st # post) l =
        Inl (sh (invoked l1) st,
             \<lparr>invoked = invoked l @ pre @ [st],
              stderr = stderr l @ [''[error] Command failed: '' @ join_words (fst st)]\<rparr>)) \<and>
   (0 < code \<and> code < 256 \<longrightarrow> exit_status code = code)"
proof (intro conjI impI)
  assume h: "run_stages (run sh) pre l = Inr l1 \<and> sh (invoked l1) st \<noteq> 0"
  then have i: "invoked l1 = invoked l @ pre \<and> stderr l1 = stderr l"
    using run_stages_invoked [of "run sh" pre l l1] run_invoked(1) by blast
  have "run sh st l1 =
      Inl (sh (invoked l1) st,
           \<lparr>invoked = invoked l @ pre @ [st],
            stderr = stderr l @ [''Step failed: '' @ join_words (fst st)]\<rparr>)"
    using h i by (simp add: run_def Let_def)
  then show "run_stages (run sh) (pre @ st # post) l =
        Inl (sh (invoked l1) st,
             \<lparr>invoked = invoked l @ pre @ [st],
              stderr = stderr l @ [''Step failed: '' @ join_words (fst st)]\<rparr>)"
    using h by (simp add: run_stages_append)
next
  assume h: "run_stages (run_FoundationPose sh) pre l = Inr l1 \<and> sh (invoked l1) st \<noteq> 0"
  then have i: "invoked l1 = invoked l @ pre \<and> stderr l1 = stderr l"
    using run_stages_invoked [of "run_FoundationPose sh" pre l l1] run_invoked(2) by blast
  have "run_FoundationPose sh st l1 =
      Inl (sh (invoked l1) st,
           \<lparr>invoked = invoked l @ pre @ [st],
            stderr = stderr l @ [''[error] Command failed: '' @ join_words (fst st)]\<rparr>)"
    using h i by (simp add: run_FoundationPose_def Let_def)
  then show "run_stages (run_FoundationPose sh) (pre @ st # post) l =
        Inl (sh (invoked l1) st,
             \<lparr>invoked = invoked l @ pre @ [st],
              stderr = stderr l @ [''[error] Command failed: '' @ join_words (fst st)]\<rparr>)"
    using h by (simp add: run_stages_append)
next
  assume "0 < code \<and> code < 256"
  then show "exit_status code = code" by (simp add: exit_status_def)
qed

text \<open>
  A run of three stages in which the command of the second exits with status 3: the
  script exits with code 3, standard error names the second command, and the third
  command is not invoked.
\<close>

theorem run_stages_abort_on_failure_witness:
  "run_stages (run (\<lambda>h st. if st = ([''python'', ''stage2.py''], None) then 3 else 0))
       [([''python'', ''stage1.py''], None)] \<lparr>invoked = [], stderr = []\<rparr>
     = Inr \<lparr>invoked = [([''python'', ''stage1.py''], None)], stderr = []\<rparr> \<and>
   (\<lambda>h st. if st = ([''python'', ''stage2.py''], None) then 3 else (0::int))
       (invoked \<lparr>invoked = [([''python'', ''stage1.py''], None)], stderr = []\<rparr>)
       ([''python'', ''stage2.py''], None) \<noteq> 0 \<and>
   run_stages (run (\<lambda>h st. if st = ([''python'', ''stage2.py''], None) then 3 else 0))
       ([([''python'', ''stage1.py''], None)] @ ([''python'', ''stage2.py''], None)
          # [([''python'', ''stage3.py''], Some ''work'')])
       \<lparr>invoked = [], stderr = []\<rparr>
     = Inl (3, \<lparr>invoked = [([''python'', ''stage1.py''], None), ([''python'', ''stage2.py''], None)],
                stderr = [''Step failed: python stage2.py'']\<rparr>) \<and>
   ((0::int) < 3 \<and> (3::int) < 256) \<and> exit_status 3 = 3"
proof -
  let ?sh = "\<lambda>(h::stage list) (st::stage). if st = ([''python'', ''stage2.py''], None) then 3 else (0::int)"
  have a: "run_stages (run ?sh) [([''python'', ''stage1.py''], None)] \<lparr>invoked = [], stderr = []\<rparr>
     = Inr \<lparr>invoked = [([''python'', ''stage1.py''], None)], stderr = []\<rparr>"
    by (simp add: run_def)
  have b: "?sh (invoked \<lparr>invoked = [([''python'', ''stage1.py''], None)], stderr = []\<rparr>)
       ([''python'', ''stage2.py''], None) \<noteq> 0"
    by simp
  have c: "(0::int) < 3 \<and> (3::int) < 256" by simp
  note T = run_stages_abort_on_failure [where sh = ?sh and pre = "[([''python'', ''stage1.py''], None)]"
      and l = "\<lparr>invoked = [], stderr = []\<rparr>"
      and ?l1.0 = "\<lparr>invoked = [([''python'', ''stage1.py''], None)], stderr = []\<rparr>"
      and st = "([''python'', ''stage2.py''], None)"
      and post = "[([''python'', ''stage3.py''], Some ''work'')]" and code = 3]
  from T a b have d: "run_stages (run ?sh)
       ([([''python'', ''stage1.py''], None)] @ ([''python'', ''stage2.py''], None)
          # [([''python'', ''stage3.py''], Some ''work'')])
       \<lparr>invoked = [], stderr = []\<rparr>
     = Inl (3, \<lparr>invoked = [([''python'', ''stage1.py''], None), ([''python'', ''stage2.py''], None)],
                stderr = [''Step failed: python stage2.py'']\<rparr>)"
    by simp
  from T c have e: "exit_status 3 = 3" by blast
  show ?thesis
    by (intro conjI a b d e) (use c in simp_all)
qed

section \<open>Verification of the GigaPose command line\<close>





























end
